theory Spec2Isabelle
  imports Main "HOL-Library.Word" "HOL-Library.Sublist"
begin

section \<open>The data model of llscan.h\<close>

text \<open>
  Addresses, sizes and counters are \<open>uint64_t\<close> in the source: 64-bit words whose
  arithmetic wraps around.
\<close>

type_synonym uint64_t = "64 word"

type_synonym ReferencesVector = "uint64_t list"

subsection \<open>TypeRecord\<close>

text \<open>
  \<open>class TypeRecord\<close>: the name, the two counters and the
  \<open>std::unordered_set<uint64_t>\<close> of instance addresses.
\<close>

record TypeRecord =
  type_name :: string
  instance_count :: uint64_t
  total_instance_size :: uint64_t
  instances :: "uint64_t set"

text \<open>The constructor \<open>TypeRecord(std::string& type_name)\<close>: both counters start at 0.\<close>

definition TypeRecord_new :: "string \<Rightarrow> TypeRecord" where
  "TypeRecord_new name =
     \<lparr>type_name = name, instance_count = 0, total_instance_size = 0, instances = {}\<rparr>"

text \<open>
  \<open>TypeRecord::AddInstance\<close>: \<open>instances_.insert(address)\<close> reports in
  \<open>result.second\<close> whether the address was new; only then are the counters touched.
  \<open>DetailedTypeRecord\<close> inherits the method, so it is stated for every extension
  of the record.
\<close>

definition AddInstance :: "uint64_t \<Rightarrow> uint64_t \<Rightarrow> 'a TypeRecord_scheme \<Rightarrow> 'a TypeRecord_scheme" where
  "AddInstance address sz t =
     (let result_second = address \<notin> instances t;
          t1 = t\<lparr>instances := insert address (instances t)\<rparr>
      in if result_second
         then t1\<lparr>instance_count := instance_count t1 + 1,
                 total_instance_size := total_instance_size t1 + sz\<rparr>
         else t1)"

text \<open>A sequence of \<open>AddInstance\<close> calls on one record, in call order.\<close>

fun AddInstances :: "(uint64_t \<times> uint64_t) list \<Rightarrow> TypeRecord \<Rightarrow> TypeRecord" where
  "AddInstances [] t = t"
| "AddInstances (c # cs) t = AddInstances cs (AddInstance (fst c) (snd c) t)"

text \<open>
  The sizes a sequence of calls passes at the first insertion of each address:
  the calls whose address was not seen before, in call order.
\<close>

fun first_insertion_sizes :: "uint64_t set \<Rightarrow> (uint64_t \<times> uint64_t) list \<Rightarrow> uint64_t list" where
  "first_insertion_sizes seen [] = []"
| "first_insertion_sizes seen (c # cs) =
     (if fst c \<in> seen then first_insertion_sizes seen cs
      else snd c # first_insertion_sizes (insert (fst c) seen) cs)"

subsection \<open>DetailedTypeRecord, the pagination state and LLScan\<close>

text \<open>\<open>class DetailedTypeRecord : public TypeRecord\<close> with its two extra counters.\<close>

record DetailedTypeRecord = TypeRecord +
  own_descriptors_count :: uint64_t
  indexed_properties_count :: uint64_t

definition DetailedTypeRecord_new :: "string \<Rightarrow> uint64_t \<Rightarrow> uint64_t \<Rightarrow> DetailedTypeRecord" where
  "DetailedTypeRecord_new name own_descriptors indexed_properties =
     \<lparr>type_name = name, instance_count = 0, total_instance_size = 0, instances = {},
      own_descriptors_count = own_descriptors,
      indexed_properties_count = indexed_properties\<rparr>"

text \<open>An \<open>lldb::SBTarget\<close> is used only through \<open>!=\<close>; a target is named by a number.\<close>

type_synonym SBTarget = nat

text \<open>
  \<open>class LLScan\<close>: the target of the last scan, the two histograms
  (\<open>std::map\<close> from a name to a record), the three reference indices
  (\<open>std::map\<close> from a key to a \<open>ReferencesVector*\<close>; every key owns its vector, so
  the pointer is modelled by the vector stored under the key) and the context set.
\<close>

record LLScan =
  target :: SBTarget
  mapstoinstances :: "string \<rightharpoonup> TypeRecord"
  detailedmapstoinstances :: "string \<rightharpoonup> DetailedTypeRecord"
  references_by_value :: "uint64_t \<rightharpoonup> ReferencesVector"
  references_by_property :: "string \<rightharpoonup> ReferencesVector"
  references_by_string :: "string \<rightharpoonup> ReferencesVector"
  contexts :: "uint64_t set"

text \<open>A new \<open>LLScan\<close>: empty containers; \<open>t0\<close> names the default-constructed target.\<close>

definition LLScan_new :: "SBTarget \<Rightarrow> LLScan" where
  "LLScan_new t0 =
     \<lparr>target = t0, mapstoinstances = Map.empty, detailedmapstoinstances = Map.empty,
      references_by_value = Map.empty, references_by_property = Map.empty,
      references_by_string = Map.empty, contexts = {}\<rparr>"

subsection \<open>The reference indices: lookup creates\<close>

text \<open>\<open>AreReferencesBy...Loaded\<close> and \<open>AreContextsLoaded\<close>: \<open>size() > 0\<close>.\<close>

definition AreReferencesByValueLoaded :: "LLScan \<Rightarrow> bool" where
  "AreReferencesByValueLoaded s = (dom (references_by_value s) \<noteq> {})"

definition AreReferencesByPropertyLoaded :: "LLScan \<Rightarrow> bool" where
  "AreReferencesByPropertyLoaded s = (dom (references_by_property s) \<noteq> {})"

definition AreReferencesByStringLoaded :: "LLScan \<Rightarrow> bool" where
  "AreReferencesByStringLoaded s = (dom (references_by_string s) \<noteq> {})"

definition AreContextsLoaded :: "LLScan \<Rightarrow> bool" where
  "AreContextsLoaded s = (contexts s \<noteq> {})"

text \<open>
  \<open>GetReferencesByValue\<close>, \<open>GetReferencesByProperty\<close>, \<open>GetReferencesByString\<close>:
  when \<open>count(key) == 0\<close> a new empty vector is stored under the key; the vector
  under the key is returned. The result is the vector and the updated \<open>LLScan\<close>.
\<close>

definition GetReferencesByValue :: "uint64_t \<Rightarrow> LLScan \<Rightarrow> ReferencesVector \<times> LLScan" where
  "GetReferencesByValue address s =
     (case references_by_value s address of
        None \<Rightarrow> ([], s\<lparr>references_by_value := (references_by_value s)(address \<mapsto> [])\<rparr>)
      | Some v \<Rightarrow> (v, s))"

definition GetReferencesByProperty :: "string \<Rightarrow> LLScan \<Rightarrow> ReferencesVector \<times> LLScan" where
  "GetReferencesByProperty property s =
     (case references_by_property s property of
        None \<Rightarrow> ([], s\<lparr>references_by_property := (references_by_property s)(property \<mapsto> [])\<rparr>)
      | Some v \<Rightarrow> (v, s))"

definition GetReferencesByString :: "string \<Rightarrow> LLScan \<Rightarrow> ReferencesVector \<times> LLScan" where
  "GetReferencesByString string_value s =
     (case references_by_string s string_value of
        None \<Rightarrow> ([], s\<lparr>references_by_string := (references_by_string s)(string_value \<mapsto> [])\<rparr>)
      | Some v \<Rightarrow> (v, s))"

text \<open>
  \<open>references = llscan_->GetReferencesBy...(key); references->push_back(x)\<close>, the
  idiom of every \<open>ScanRefs\<close>: the lookup (which may create the vector), then the
  append through the returned pointer.
\<close>

definition push_back_by_value :: "uint64_t \<Rightarrow> uint64_t \<Rightarrow> LLScan \<Rightarrow> LLScan" where
  "push_back_by_value key x s =
     (let r = GetReferencesByValue key s
      in (snd r)\<lparr>references_by_value := (references_by_value (snd r))(key \<mapsto> fst r @ [x])\<rparr>)"

definition push_back_by_property :: "string \<Rightarrow> uint64_t \<Rightarrow> LLScan \<Rightarrow> LLScan" where
  "push_back_by_property key x s =
     (let r = GetReferencesByProperty key s
      in (snd r)\<lparr>references_by_property := (references_by_property (snd r))(key \<mapsto> fst r @ [x])\<rparr>)"

definition push_back_by_string :: "string \<Rightarrow> uint64_t \<Rightarrow> LLScan \<Rightarrow> LLScan" where
  "push_back_by_string key x s =
     (let r = GetReferencesByString key s
      in (snd r)\<lparr>references_by_string := (references_by_string (snd r))(key \<mapsto> fst r @ [x])\<rparr>)"

text \<open>\<open>LLScan::ClearMapsToInstances\<close>: deletes the records of \<open>mapstoinstances_\<close> and clears it.\<close>

definition ClearMapsToInstances :: "LLScan \<Rightarrow> LLScan" where
  "ClearMapsToInstances s = s\<lparr>mapstoinstances := Map.empty\<rparr>"

text \<open>\<open>LLScan::ClearReferences\<close>: deletes the vectors of the three indices and clears them.\<close>

definition ClearReferences :: "LLScan \<Rightarrow> LLScan" where
  "ClearReferences s =
     s\<lparr>references_by_value := Map.empty, references_by_property := Map.empty,
       references_by_string := Map.empty\<rparr>"

section \<open>The collaborators of the scanner\<close>

text \<open>
  \<open>std::to_string\<close> of an unsigned number, and the \<open>operator<<\<close> of a stream on
  one: the decimal digits.
\<close>

fun to_string :: "nat \<Rightarrow> string" where
  "to_string n =
     (if n < 10 then [''0123456789'' ! n]
      else to_string (n div 10) @ [''0123456789'' ! (n mod 10)])"

declare to_string.simps [simp del]

text \<open>
  \<open>FindJSObjectsVisitor::MapCacheEntry\<close>: what \<open>Load\<close> decodes from a map and the
  first object seen with it.
\<close>

record MapCacheEntry =
  mce_type_name :: string
  is_histogram :: bool
  is_context :: bool
  properties :: "string list"
  mce_own_descriptors_count :: uint64_t
  mce_indexed_properties_count :: uint64_t

datatype ShowArrayLength = kShowArrayLength | kDontShowArrayLength

text \<open>
  \<open>MapCacheEntry::GetTypeNameWithProperties\<close>: the type name, the element count in
  brackets when asked for, then the first \<open>max_properties\<close> property names (all of
  them when \<open>max_properties\<close> is 0) and \<open>", ..."\<close> when names were left out.
\<close>

fun join_properties :: "nat \<Rightarrow> string list \<Rightarrow> string" where
  "join_properties i [] = []"
| "join_properties i (p # ps) =
     (if i \<noteq> 0 then '', '' else '': '') @ p @ join_properties (Suc i) ps"

definition GetTypeNameWithProperties :: "ShowArrayLength \<Rightarrow> nat \<Rightarrow> MapCacheEntry \<Rightarrow> string" where
  "GetTypeNameWithProperties show_array_length max_properties e =
     (let s0 = mce_type_name e;
          s1 = (if show_array_length = kShowArrayLength
                then s0 @ ''['' @ to_string (unat (mce_indexed_properties_count e)) @ '']''
                else s0);
          mp = (if max_properties \<noteq> 0 then min max_properties (length (properties e))
                else length (properties e));
          s2 = s1 @ join_properties 0 (take mp (properties e))
      in if mp < length (properties e) then s2 @ '', ...'' else s2)"

text \<open>
  One memory region of the process as \<open>ScanMemoryRegions\<close> reads it: whether it is
  writable, and for each block of the region, in order, the words of the block (after
  the byte swap) or \<open>None\<close> when \<open>ReadMemory\<close> failed on it.
\<close>

record SBMemoryRegionInfo =
  IsWritable :: bool
  blocks :: "uint64_t list option list"

text \<open>
  The collaborators that are not part of these sources, as the scanner uses them: the
  debugger (the regions and the address size of the process of the target being
  scanned), the layout model of llv8 (\<open>Smi::Check\<close>, \<open>HeapObject::Check\<close>,
  \<open>GetMap\<close>, \<open>Map::InstanceSize\<close> with the success of its \<open>Error\<close>, and
  what \<open>MapCacheEntry::Load\<close> decodes, \<open>None\<close> when it fails), and the order in
  which a \<open>std::unordered_set\<close> and a \<open>std::map\<close> of records are enumerated.
\<close>

record Scan_Env =
  GetAddressByteSize :: nat
  GetMemoryRegions :: "SBMemoryRegionInfo list"
  Smi_Check :: "uint64_t \<Rightarrow> bool"
  HeapObject_Check :: "uint64_t \<Rightarrow> bool"
  GetMap :: "uint64_t \<Rightarrow> uint64_t option"
  MapCacheEntry_Load :: "uint64_t \<Rightarrow> uint64_t \<Rightarrow> MapCacheEntry option"
  InstanceSize :: "uint64_t \<Rightarrow> uint64_t"
  InstanceSize_ok :: "uint64_t \<Rightarrow> bool"
  unordered_set_order :: "uint64_t set \<Rightarrow> uint64_t list"
  map_order :: "(string \<rightharpoonup> TypeRecord) \<Rightarrow> TypeRecord list"

section \<open>FindJSObjectsVisitor and the heap scan\<close>

record FindJSObjectsVisitor =
  found_count :: "32 word"
  map_cache :: "uint64_t \<rightharpoonup> MapCacheEntry"

definition FindJSObjectsVisitor_new :: FindJSObjectsVisitor where
  "FindJSObjectsVisitor_new = \<lparr>found_count = 0, map_cache = Map.empty\<rparr>"

text \<open>\<open>FindJSObjectsVisitor::InsertOnContexts\<close>: \<open>contexts->insert(word)\<close>.\<close>

definition InsertOnContexts :: "uint64_t \<Rightarrow> LLScan \<Rightarrow> LLScan" where
  "InsertOnContexts word s = s\<lparr>contexts := insert word (contexts s)\<rparr>"

text \<open>
  \<open>FindJSObjectsVisitor::InsertOnMapsToInstances\<close>: the record under the type name,
  created when the name is new, gets the instance.
\<close>

definition InsertOnMapsToInstances ::
  "'e Scan_Env_scheme \<Rightarrow> uint64_t \<Rightarrow> uint64_t \<Rightarrow> MapCacheEntry \<Rightarrow> LLScan \<Rightarrow> LLScan" where
  "InsertOnMapsToInstances env word m map_info s =
     (let t = (case mapstoinstances s (mce_type_name map_info) of
                 None \<Rightarrow> TypeRecord_new (mce_type_name map_info)
               | Some t \<Rightarrow> t)
      in s\<lparr>mapstoinstances :=
             (mapstoinstances s)(mce_type_name map_info \<mapsto> AddInstance word (InstanceSize env m) t)\<rparr>)"

text \<open>
  \<open>FindJSObjectsVisitor::InsertOnDetailedMapsToInstances\<close>: the key is the name with
  the element count and all properties; a new record is named with at most
  \<open>kNumberOfPropertiesForDetailedOutput = 3\<close> properties and no element count.
\<close>

definition kNumberOfPropertiesForDetailedOutput :: nat where
  "kNumberOfPropertiesForDetailedOutput = 3"

definition InsertOnDetailedMapsToInstances ::
  "'e Scan_Env_scheme \<Rightarrow> uint64_t \<Rightarrow> uint64_t \<Rightarrow> MapCacheEntry \<Rightarrow> LLScan \<Rightarrow> LLScan" where
  "InsertOnDetailedMapsToInstances env word m map_info s =
     (let type_name_with_properties = GetTypeNameWithProperties kShowArrayLength 0 map_info;
          t = (case detailedmapstoinstances s type_name_with_properties of
                 None \<Rightarrow>
                   DetailedTypeRecord_new
                     (GetTypeNameWithProperties kDontShowArrayLength
                        kNumberOfPropertiesForDetailedOutput map_info)
                     (mce_own_descriptors_count map_info)
                     (mce_indexed_properties_count map_info)
               | Some t \<Rightarrow> t)
      in s\<lparr>detailedmapstoinstances :=
             (detailedmapstoinstances s)
               (type_name_with_properties \<mapsto> AddInstance word (InstanceSize env m) t)\<rparr>)"

text \<open>
  \<open>FindJSObjectsVisitor::Visit\<close> on one word. Every path returns
  \<open>address_byte_size_\<close>, so the result is the visitor and the \<open>LLScan\<close> only.
\<close>

definition Visit ::
  "'e Scan_Env_scheme \<Rightarrow> uint64_t \<Rightarrow> FindJSObjectsVisitor \<times> LLScan \<Rightarrow> FindJSObjectsVisitor \<times> LLScan" where
  "Visit env word vs =
     (if Smi_Check env word then vs
      else if \<not> HeapObject_Check env word then vs
      else case GetMap env word of
        None \<Rightarrow> vs
      | Some m \<Rightarrow>
          (case (case map_cache (fst vs) m of
                   None \<Rightarrow>
                     (case MapCacheEntry_Load env m word of
                        None \<Rightarrow> None
                      | Some i \<Rightarrow> Some (i, (fst vs)\<lparr>map_cache := (map_cache (fst vs))(m \<mapsto> i)\<rparr>))
                 | Some i \<Rightarrow> Some (i, fst vs)) of
             None \<Rightarrow> vs
           | Some iv \<Rightarrow>
               if is_context (fst iv) then (snd iv, InsertOnContexts word (snd vs))
               else if \<not> is_histogram (fst iv) then (snd iv, snd vs)
               else
                 (let s2 = InsertOnDetailedMapsToInstances env word m (fst iv)
                             (InsertOnMapsToInstances env word m (fst iv) (snd vs))
                  in if \<not> InstanceSize_ok env m then (snd iv, s2)
                     else ((snd iv)\<lparr>found_count := found_count (snd iv) + 1\<rparr>, s2))))"

text \<open>
  \<open>LLScan::ScanMemoryRegions\<close>: every writable region, block after block; a block
  that cannot be read ends its region; every word of a block is visited when the
  address size is 4 or 8 (and none otherwise). The functions give the state when the
  loops end. They end unless the address size is 0: the block size is then 0, the
  loop over the blocks of a region does not advance, and it ends only when the read
  fails; \<open>ScanMemoryRegions_returns\<close> below says whether the loops end.
\<close>

fun scan_blocks ::
  "'e Scan_Env_scheme \<Rightarrow> uint64_t list option list \<Rightarrow> FindJSObjectsVisitor \<times> LLScan
   \<Rightarrow> FindJSObjectsVisitor \<times> LLScan" where
  "scan_blocks env [] vs = vs"
| "scan_blocks env (None # bs) vs = vs"
| "scan_blocks env (Some ws # bs) vs =
     scan_blocks env bs
       (if GetAddressByteSize env = 4 \<or> GetAddressByteSize env = 8
        then fold (Visit env) ws vs else vs)"

fun scan_regions ::
  "'e Scan_Env_scheme \<Rightarrow> SBMemoryRegionInfo list \<Rightarrow> FindJSObjectsVisitor \<times> LLScan
   \<Rightarrow> FindJSObjectsVisitor \<times> LLScan" where
  "scan_regions env [] vs = vs"
| "scan_regions env (r # rs) vs =
     scan_regions env rs (if \<not> IsWritable r then vs else scan_blocks env (blocks r) vs)"

definition ScanMemoryRegions ::
  "'e Scan_Env_scheme \<Rightarrow> FindJSObjectsVisitor \<times> LLScan \<Rightarrow> FindJSObjectsVisitor \<times> LLScan" where
  "ScanMemoryRegions env vs = scan_regions env (GetMemoryRegions env) vs"

definition ScanMemoryRegions_returns :: "'e Scan_Env_scheme \<Rightarrow> bool" where
  "ScanMemoryRegions_returns env =
     (GetAddressByteSize env \<noteq> 0
      \<or> list_all (\<lambda>r. \<not> IsWritable r
                        \<or> (case blocks r of Some ws # rest \<Rightarrow> False | _ \<Rightarrow> True))
           (GetMemoryRegions env))"

text \<open>
  \<open>LLScan::ScanHeapForObjects\<close>, given the target and its collaborators: when the
  target differs from the one of the last scan, \<open>ClearMapsToInstances\<close> and
  \<open>ClearReferences\<close> run and the target is stored; the memory is scanned when
  \<open>mapstoinstances_\<close> is empty. The function returns \<open>true\<close> on every path.
\<close>

definition ScanHeapForObjects :: "'e Scan_Env_scheme \<Rightarrow> SBTarget \<Rightarrow> LLScan \<Rightarrow> bool \<times> LLScan" where
  "ScanHeapForObjects env tgt s =
     (let s1 = (if target s \<noteq> tgt
                then (ClearReferences (ClearMapsToInstances s))\<lparr>target := tgt\<rparr>
                else s);
          s2 = (if mapstoinstances s1 = Map.empty
                then snd (ScanMemoryRegions env (FindJSObjectsVisitor_new, s1))
                else s1)
      in (True, s2))"

text \<open>Whether \<open>ScanHeapForObjects\<close> returns: it does when it does not scan.\<close>

definition ScanHeapForObjects_returns :: "'e Scan_Env_scheme \<Rightarrow> SBTarget \<Rightarrow> LLScan \<Rightarrow> bool" where
  "ScanHeapForObjects_returns env tgt s =
     (let s1 = (if target s \<noteq> tgt
                then (ClearReferences (ClearMapsToInstances s))\<lparr>target := tgt\<rparr>
                else s)
      in mapstoinstances s1 \<noteq> Map.empty \<or> ScanMemoryRegions_returns env)"

section \<open>FindInstancesCmd: the paginated instance listing\<close>

text \<open>
  \<open>struct cmd_pagination_t\<close>. Its three numbers are C++ \<open>int\<close>, modelled as
  integers; the overflow of an \<open>int\<close> operation is undefined behaviour in the source
  and a result \<open>None\<close> of \<open>DoExecute\<close> below.
\<close>

record cmd_pagination_t =
  total_entries :: int
  current_page :: int
  output_limit :: int
  command :: string


text \<open>
  ``Update pagination options'' of \<open>FindInstancesCmd::DoExecute\<close>: a query whose
  text or output limit differs from the stored one starts again at page 0 and stores
  the instance count; the same query goes to the next page, or back to page 0 when
  there is no limit or when \<open>(current_page + 1) * output_limit\<close> exceeds the stored
  number of entries.
\<close>

definition UpdatePagination :: "string \<Rightarrow> int \<Rightarrow> int \<Rightarrow> cmd_pagination_t \<Rightarrow> cmd_pagination_t" where
  "UpdatePagination full_cmd limit instance_count_int p =
     (if full_cmd \<noteq> command p \<or> limit \<noteq> output_limit p
      then p\<lparr>total_entries := instance_count_int, command := full_cmd,
             current_page := 0, output_limit := limit\<rparr>
      else if output_limit p \<le> 0 \<or> (current_page p + 1) * output_limit p > total_entries p
      then p\<lparr>current_page := 0\<rparr>
      else p\<lparr>current_page := current_page p + 1\<rparr>)"

text \<open>\<open>initial_p_offset\<close> and \<open>final_p_offset\<close> of the page shown.\<close>

definition initial_p_offset :: "int \<Rightarrow> cmd_pagination_t \<Rightarrow> int" where
  "initial_p_offset limit p = current_page p * limit"

definition final_p_offset :: "int \<Rightarrow> cmd_pagination_t \<Rightarrow> int" where
  "final_p_offset limit p =
     (let f = initial_p_offset limit p
              + min (output_limit p) (total_entries p - current_page p * output_limit p)
      in if f \<le> 0 then total_entries p else f)"

text \<open>
  The \<open>int\<close> operations of the update and of the offsets, in the range of a 32-bit
  \<open>int\<close>: \<open>(current_page + 1) * output_limit\<close> is computed when the query is
  the stored one and the limit is positive; the offsets and the \<open>initial_p_offset + 1\<close>
  of the last line are computed for every page shown.
\<close>

definition int_ok :: "int \<Rightarrow> bool" where
  "int_ok x = (- 2147483648 \<le> x \<and> x \<le> 2147483647)"

definition update_in_range :: "string \<Rightarrow> int \<Rightarrow> cmd_pagination_t \<Rightarrow> bool" where
  "update_in_range full_cmd limit p =
     (full_cmd \<noteq> command p \<or> limit \<noteq> output_limit p \<or> output_limit p \<le> 0
      \<or> (int_ok (current_page p + 1) \<and> int_ok ((current_page p + 1) * output_limit p)))"


text \<open>
  The instances printed. The iterator starts at \<open>begin()\<close> on page 0 and at
  \<open>std::next(begin(), initial_p_offset)\<close> otherwise; while it is not \<open>end()\<close>
  the loop compares it with \<open>std::next(begin(), final_p_offset)\<close> and stops when
  they are equal. \<open>std::next\<close> of a negative number or of more steps than the set
  has elements moves the iterator outside the set, which is undefined behaviour: the
  result is \<open>None\<close> then. Otherwise the result is the instances passed and whether
  the iterator stopped before \<open>end()\<close>.
\<close>

definition page_instances ::
  "int \<Rightarrow> cmd_pagination_t \<Rightarrow> uint64_t list \<Rightarrow> (uint64_t list \<times> bool) option" where
  "page_instances limit p xs =
     (let n = int (length xs);
          i0 = (if current_page p = 0 then 0 else initial_p_offset limit p);
          f = final_p_offset limit p
      in if i0 < 0 \<or> n < i0 then None
         else if i0 = n then Some ([], False)
         else if f < 0 \<or> n < f then None
         else if i0 \<le> f then Some (take (nat (f - i0)) (drop (nat i0) xs), f < n)
         else Some (drop (nat i0) xs, False))"


text \<open>
  One call of a command: whether arguments were given (\<open>cmd\<close> and \<open>*cmd\<close> are
  not null), whether the selected target is valid, and the target. For
  \<open>findjsinstances\<close> also what \<open>ParsePrinterOptions\<close> (getopt) made of the
  arguments: the output limit and the concatenated remaining arguments.
\<close>

record Command_call =
  cmd_given :: bool
  target_valid :: bool
  selected_target :: SBTarget

record FindInstances_call = Command_call +
  parsed_output_limit :: int
  full_cmd :: string





section \<open>The operations on an LLScan\<close>

text \<open>
  Everything the sources do to an \<open>LLScan\<close> goes through these operations: the heap
  scan of a target (with its collaborators), the three lookups, and the appends of
  the \<open>ScanRefs\<close> methods through a looked-up vector. A session is a sequence of them.
\<close>

datatype 'e LLScan_operation =
    Do_ScanHeapForObjects "'e Scan_Env_scheme" SBTarget
  | Do_GetReferencesByValue uint64_t
  | Do_GetReferencesByProperty string
  | Do_GetReferencesByString string
  | Do_push_back_by_value uint64_t uint64_t
  | Do_push_back_by_property string uint64_t
  | Do_push_back_by_string string uint64_t

fun apply_operation :: "'e LLScan_operation \<Rightarrow> LLScan \<Rightarrow> LLScan" where
  "apply_operation (Do_ScanHeapForObjects env tgt) s = snd (ScanHeapForObjects env tgt s)"
| "apply_operation (Do_GetReferencesByValue a) s = snd (GetReferencesByValue a s)"
| "apply_operation (Do_GetReferencesByProperty p) s = snd (GetReferencesByProperty p s)"
| "apply_operation (Do_GetReferencesByString v) s = snd (GetReferencesByString v s)"
| "apply_operation (Do_push_back_by_value k x) s = push_back_by_value k x s"
| "apply_operation (Do_push_back_by_property k x) s = push_back_by_property k x s"
| "apply_operation (Do_push_back_by_string k x) s = push_back_by_string k x s"

fun run_session :: "'e LLScan_operation list \<Rightarrow> LLScan \<Rightarrow> LLScan" where
  "run_session [] s = s"
| "run_session (operation # rest) s = run_session rest (apply_operation operation s)"

text \<open>What a scan keeps: the contexts it started with, the three indices and the target.\<close>

definition scan_keeps :: "LLScan \<Rightarrow> LLScan \<Rightarrow> bool" where
  "scan_keeps s s' =
     (contexts s \<subseteq> contexts s'
      \<and> references_by_value s' = references_by_value s
      \<and> references_by_property s' = references_by_property s
      \<and> references_by_string s' = references_by_string s
      \<and> target s' = target s)"

section \<open>The layout model as the reference scanners use it\<close>

text \<open>
  A call of llv8 that takes the \<open>Error& err\<close> leaves a success flag and a value; the
  sources read the value also after a failure in some places, so both are kept.
\<close>

type_synonym 'a checked = "bool \<times> 'a"

abbreviation Success :: "'a checked \<Rightarrow> bool" where
  "Success r \<equiv> fst r"

abbreviation Fail :: "'a checked \<Rightarrow> bool" where
  "Fail r \<equiv> \<not> fst r"

abbreviation value_of :: "'a checked \<Rightarrow> 'a" where
  "value_of r \<equiv> snd r"

text \<open>
  The heap as llv8 decodes it (llv8 is not part of these sources): the type of a heap
  object and the type constants, the elements and the key/value entries of an object,
  the text of a key and of a string, the representation of a string and its parts
  (\<open>Representation\<close> is a \<open>CheckedType\<close>: \<open>None\<close> when its check fails), and the
  local variable slots of a context (\<open>None\<close> when they cannot be read).
\<close>

record Heap_Env = Scan_Env +
  GetType :: "uint64_t \<Rightarrow> int checked"
  IsObjectType :: "int \<Rightarrow> bool"
  kJSArrayType :: int
  kJSTypedArrayType :: int
  kFirstNonstringType :: int
  GetArrayLength :: "uint64_t \<Rightarrow> int"
  GetArrayElement :: "uint64_t \<Rightarrow> nat \<Rightarrow> uint64_t checked"
  Entries :: "uint64_t \<Rightarrow> (uint64_t \<times> uint64_t) list checked"
  Value_ToString :: "uint64_t \<Rightarrow> string checked"
  String_ToString :: "uint64_t \<Rightarrow> string checked"
  Representation :: "uint64_t \<Rightarrow> int option"
  kSlicedStringTag :: int
  kConsStringTag :: int
  kThinStringTag :: int
  Parent :: "uint64_t \<Rightarrow> uint64_t checked"
  First :: "uint64_t \<Rightarrow> uint64_t checked"
  Second :: "uint64_t \<Rightarrow> uint64_t checked"
  Actual :: "uint64_t \<Rightarrow> uint64_t checked"
  Locals :: "uint64_t \<Rightarrow> uint64_t list option"

text \<open>The three scanners, each with its \<open>search_value_\<close>.\<close>

datatype ObjectScanner =
    ReferenceScanner uint64_t
  | PropertyScanner string
  | StringScanner string

section \<open>ScanRefs of the three scanners\<close>

subsection \<open>ReferenceScanner\<close>

text \<open>
  \<open>ReferenceScanner::ScanRefs(v8::JSObject&)\<close>. The loop over the elements stops at
  the first element that cannot be read; a value in \<open>already_saved\<close> is passed over;
  otherwise the object is appended to the value's vector and the value is saved. The
  loop over the entries runs only when \<open>Entries\<close> succeeded, with the same set.
\<close>

fun ReferenceScanner_elements ::
  "'e Heap_Env_scheme \<Rightarrow> uint64_t \<Rightarrow> nat list \<Rightarrow> uint64_t set \<times> LLScan \<Rightarrow> uint64_t set \<times> LLScan" where
  "ReferenceScanner_elements env js_obj [] st = st"
| "ReferenceScanner_elements env js_obj (i # rest) st =
     (let v = GetArrayElement env js_obj i
      in if \<not> Success v then st
         else if value_of v \<in> fst st then ReferenceScanner_elements env js_obj rest st
         else ReferenceScanner_elements env js_obj rest
                (insert (value_of v) (fst st), push_back_by_value (value_of v) js_obj (snd st)))"

fun ReferenceScanner_entries ::
  "uint64_t \<Rightarrow> (uint64_t \<times> uint64_t) list \<Rightarrow> uint64_t set \<times> LLScan \<Rightarrow> uint64_t set \<times> LLScan" where
  "ReferenceScanner_entries js_obj [] st = st"
| "ReferenceScanner_entries js_obj (entry # rest) st =
     (if snd entry \<in> fst st then ReferenceScanner_entries js_obj rest st
      else ReferenceScanner_entries js_obj rest
             (insert (snd entry) (fst st), push_back_by_value (snd entry) js_obj (snd st)))"

definition ReferenceScanner_ScanRefs_JSObject :: "'e Heap_Env_scheme \<Rightarrow> uint64_t \<Rightarrow> LLScan \<Rightarrow> LLScan" where
  "ReferenceScanner_ScanRefs_JSObject env js_obj s =
     (let st = ReferenceScanner_elements env js_obj [0 ..< nat (GetArrayLength env js_obj)] ({}, s);
          entries = Entries env js_obj
      in if Fail entries then snd st
         else snd (ReferenceScanner_entries js_obj (value_of entries) st))"

text \<open>
  \<open>ReferenceScanner::ScanRefs(v8::String&)\<close>: a sliced string refers to its parent,
  a cons string to its first part and, when it differs from the first, to its second
  part, a thin string to the actual string.
\<close>

definition ReferenceScanner_ScanRefs_String :: "'e Heap_Env_scheme \<Rightarrow> uint64_t \<Rightarrow> LLScan \<Rightarrow> LLScan" where
  "ReferenceScanner_ScanRefs_String env str s =
     (case Representation env str of
        None \<Rightarrow> s
      | Some repr \<Rightarrow>
          if repr = kSlicedStringTag env then
            (if Success (Parent env str) then push_back_by_value (value_of (Parent env str)) str s
             else s)
          else if repr = kConsStringTag env then
            (let s1 = (if Success (First env str)
                       then push_back_by_value (value_of (First env str)) str s else s)
             in if Success (Second env str)
                   \<and> value_of (First env str) \<noteq> value_of (Second env str)
                then push_back_by_value (value_of (Second env str)) str s1 else s1)
          else if repr = kThinStringTag env then
            (if Success (Actual env str) then push_back_by_value (value_of (Actual env str)) str s
             else s)
          else s)"

subsection \<open>PropertyScanner\<close>

text \<open>
  \<open>PropertyScanner::ScanRefs(v8::JSObject&)\<close>: for every entry whose key has a
  text, the object is appended to the vector of that text. There is no
  \<open>already_saved\<close> set in this method. Strings are left to the default no-op.
\<close>

fun PropertyScanner_entries ::
  "'e Heap_Env_scheme \<Rightarrow> uint64_t \<Rightarrow> (uint64_t \<times> uint64_t) list \<Rightarrow> LLScan \<Rightarrow> LLScan" where
  "PropertyScanner_entries env js_obj [] s = s"
| "PropertyScanner_entries env js_obj (entry # rest) s =
     (let key = Value_ToString env (fst entry)
      in if Fail key then PropertyScanner_entries env js_obj rest s
         else PropertyScanner_entries env js_obj rest (push_back_by_property (value_of key) js_obj s))"

definition PropertyScanner_ScanRefs_JSObject :: "'e Heap_Env_scheme \<Rightarrow> uint64_t \<Rightarrow> LLScan \<Rightarrow> LLScan" where
  "PropertyScanner_ScanRefs_JSObject env js_obj s =
     (let entries = Entries env js_obj
      in if Fail entries then s
         else PropertyScanner_entries env js_obj (value_of entries) s)"

subsection \<open>StringScanner\<close>

text \<open>
  One step of both loops of \<open>StringScanner::ScanRefs(v8::JSObject&)\<close> on a value that
  was read: when its type is read and is a string type and its text decodes and is
  not in \<open>already_saved\<close>, the object is appended to the vector of the text.
\<close>

definition StringScanner_value ::
  "'e Heap_Env_scheme \<Rightarrow> uint64_t \<Rightarrow> uint64_t \<Rightarrow> string set \<times> LLScan \<Rightarrow> string set \<times> LLScan" where
  "StringScanner_value env js_obj v st =
     (if Fail (GetType env v) then st
      else if value_of (GetType env v) < kFirstNonstringType env then
        (if Fail (String_ToString env v) then st
         else if value_of (String_ToString env v) \<in> fst st then st
         else (insert (value_of (String_ToString env v)) (fst st),
               push_back_by_string (value_of (String_ToString env v)) js_obj (snd st)))
      else st)"

fun StringScanner_elements ::
  "'e Heap_Env_scheme \<Rightarrow> uint64_t \<Rightarrow> nat list \<Rightarrow> string set \<times> LLScan \<Rightarrow> string set \<times> LLScan" where
  "StringScanner_elements env js_obj [] st = st"
| "StringScanner_elements env js_obj (i # rest) st =
     (let v = GetArrayElement env js_obj i
      in if Fail v then StringScanner_elements env js_obj rest st
         else StringScanner_elements env js_obj rest (StringScanner_value env js_obj (value_of v) st))"

fun StringScanner_entries ::
  "'e Heap_Env_scheme \<Rightarrow> uint64_t \<Rightarrow> (uint64_t \<times> uint64_t) list \<Rightarrow> string set \<times> LLScan
   \<Rightarrow> string set \<times> LLScan" where
  "StringScanner_entries env js_obj [] st = st"
| "StringScanner_entries env js_obj (entry # rest) st =
     StringScanner_entries env js_obj rest (StringScanner_value env js_obj (snd entry) st)"

definition StringScanner_ScanRefs_JSObject :: "'e Heap_Env_scheme \<Rightarrow> uint64_t \<Rightarrow> LLScan \<Rightarrow> LLScan" where
  "StringScanner_ScanRefs_JSObject env js_obj s =
     (let st = StringScanner_elements env js_obj [0 ..< nat (GetArrayLength env js_obj)] ({}, s);
          entries = Entries env js_obj
      in if Success entries then snd (StringScanner_entries env js_obj (value_of entries) st)
         else snd st)"

text \<open>
  \<open>StringScanner::ScanRefs(v8::String&)\<close>: a sliced string is recorded under the
  text of its parent; a cons string under the text of its first part and under the
  text of its second part, each when the part is read, is of a string type and
  decodes. A failure to read a part or its type ends the method.
\<close>

definition StringScanner_part :: "'e Heap_Env_scheme \<Rightarrow> uint64_t \<Rightarrow> uint64_t \<Rightarrow> LLScan \<Rightarrow> LLScan" where
  "StringScanner_part env str part s =
     (if value_of (GetType env part) < kFirstNonstringType env
         \<and> Success (String_ToString env part)
      then push_back_by_string (value_of (String_ToString env part)) str s else s)"

definition StringScanner_ScanRefs_String :: "'e Heap_Env_scheme \<Rightarrow> uint64_t \<Rightarrow> LLScan \<Rightarrow> LLScan" where
  "StringScanner_ScanRefs_String env str s =
     (case Representation env str of
        None \<Rightarrow> s
      | Some repr \<Rightarrow>
          if repr = kSlicedStringTag env then
            (if Fail (Parent env str) then s
             else if Success (String_ToString env (value_of (Parent env str)))
             then push_back_by_string
                    (value_of (String_ToString env (value_of (Parent env str)))) str s
             else s)
          else if repr = kConsStringTag env then
            (if Fail (First env str) then s
             else if Fail (GetType env (value_of (First env str))) then s
             else
               (let s1 = StringScanner_part env str (value_of (First env str)) s
                in if Fail (Second env str) then s1
                   else if Fail (GetType env (value_of (Second env str))) then s1
                   else StringScanner_part env str (value_of (Second env str)) s1))
          else s)"

subsection \<open>The dispatch on the scanner and ScanForReferences\<close>

text \<open>
  The virtual \<open>ScanRefs\<close> (the base class's methods do nothing), \<open>AreReferencesLoaded\<close>
  and \<open>GetReferences\<close> of a scanner.
\<close>

fun ScanRefs_JSObject :: "'e Heap_Env_scheme \<Rightarrow> ObjectScanner \<Rightarrow> uint64_t \<Rightarrow> LLScan \<Rightarrow> LLScan" where
  "ScanRefs_JSObject env (ReferenceScanner v) js_obj s = ReferenceScanner_ScanRefs_JSObject env js_obj s"
| "ScanRefs_JSObject env (PropertyScanner v) js_obj s = PropertyScanner_ScanRefs_JSObject env js_obj s"
| "ScanRefs_JSObject env (StringScanner v) js_obj s = StringScanner_ScanRefs_JSObject env js_obj s"

fun ScanRefs_String :: "'e Heap_Env_scheme \<Rightarrow> ObjectScanner \<Rightarrow> uint64_t \<Rightarrow> LLScan \<Rightarrow> LLScan" where
  "ScanRefs_String env (ReferenceScanner v) str s = ReferenceScanner_ScanRefs_String env str s"
| "ScanRefs_String env (PropertyScanner v) str s = s"
| "ScanRefs_String env (StringScanner v) str s = StringScanner_ScanRefs_String env str s"

fun AreReferencesLoaded :: "ObjectScanner \<Rightarrow> LLScan \<Rightarrow> bool" where
  "AreReferencesLoaded (ReferenceScanner v) s = AreReferencesByValueLoaded s"
| "AreReferencesLoaded (PropertyScanner v) s = AreReferencesByPropertyLoaded s"
| "AreReferencesLoaded (StringScanner v) s = AreReferencesByStringLoaded s"

fun GetReferences :: "ObjectScanner \<Rightarrow> LLScan \<Rightarrow> ReferencesVector \<times> LLScan" where
  "GetReferences (ReferenceScanner v) s = GetReferencesByValue v s"
| "GetReferences (PropertyScanner v) s = GetReferencesByProperty v s"
| "GetReferences (StringScanner v) s = GetReferencesByString v s"

text \<open>
  \<open>FindReferencesCmd::ScanForReferences\<close>: every instance of every record of the
  histogram is handed to the scanner as an object (object and array types) or as a
  string (types below \<open>kFirstNonstringType\<close>); the type is used as it was read.
\<close>

definition ScanForReferences_instance ::
  "'e Heap_Env_scheme \<Rightarrow> ObjectScanner \<Rightarrow> uint64_t \<Rightarrow> LLScan \<Rightarrow> LLScan" where
  "ScanForReferences_instance env scanner addr s =
     (let ty = value_of (GetType env addr)
      in if IsObjectType env ty \<or> ty = kJSArrayType env then ScanRefs_JSObject env scanner addr s
         else if ty < kFirstNonstringType env then ScanRefs_String env scanner addr s
         else s)"

definition ScanForReferences :: "'e Heap_Env_scheme \<Rightarrow> ObjectScanner \<Rightarrow> LLScan \<Rightarrow> LLScan" where
  "ScanForReferences env scanner s =
     fold (ScanForReferences_instance env scanner)
       (concat (map (\<lambda>typerecord. unordered_set_order env (instances typerecord))
                  (map_order env (mapstoinstances s))))
       s"

section \<open>The heap snapshot: nodes, edges and the serializer\<close>

text \<open>\<open>HeapGraphNode::Type\<close> and \<open>HeapGraphEdge::Type\<close> with their numbers.\<close>

datatype HeapGraphNode_Type =
    kHidden | kArray | kString | kObject | kCode | kClosure | kRegExp | kHeapNumber
  | kNative | kSynthetic | kConsString | kSlicedString | kSymbol | kSimdValue | kInvalid

fun HeapGraphNode_Type_number :: "HeapGraphNode_Type \<Rightarrow> int" where
  "HeapGraphNode_Type_number kHidden = 0"
| "HeapGraphNode_Type_number kArray = 1"
| "HeapGraphNode_Type_number kString = 2"
| "HeapGraphNode_Type_number kObject = 3"
| "HeapGraphNode_Type_number kCode = 4"
| "HeapGraphNode_Type_number kClosure = 5"
| "HeapGraphNode_Type_number kRegExp = 6"
| "HeapGraphNode_Type_number kHeapNumber = 7"
| "HeapGraphNode_Type_number kNative = 8"
| "HeapGraphNode_Type_number kSynthetic = 9"
| "HeapGraphNode_Type_number kConsString = 10"
| "HeapGraphNode_Type_number kSlicedString = 11"
| "HeapGraphNode_Type_number kSymbol = 12"
| "HeapGraphNode_Type_number kSimdValue = 13"
| "HeapGraphNode_Type_number kInvalid = - 1"

datatype HeapGraphEdge_Type =
    kContextVariable | kElement | kProperty | kInternal | kHiddenEdge | kShortcut | kWeak

fun HeapGraphEdge_Type_number :: "HeapGraphEdge_Type \<Rightarrow> int" where
  "HeapGraphEdge_Type_number kContextVariable = 0"
| "HeapGraphEdge_Type_number kElement = 1"
| "HeapGraphEdge_Type_number kProperty = 2"
| "HeapGraphEdge_Type_number kInternal = 3"
| "HeapGraphEdge_Type_number kHiddenEdge = 4"
| "HeapGraphEdge_Type_number kShortcut = 5"
| "HeapGraphEdge_Type_number kWeak = 6"

text \<open>
  \<open>class HeapGraphNode\<close> and \<open>class HeapGraphEdge\<close> (the fields \<open>id_\<close> and
  \<open>size_\<close> carry the prefix of the others here). Neither class has a constructor:
  a field that is never assigned holds whatever the memory held.
\<close>

record HeapGraphNode =
  n_address :: uint64_t
  n_name :: uint64_t
  n_id :: uint64_t
  n_size :: uint64_t
  n_children :: uint64_t
  n_trace_node_id :: uint64_t
  n_type :: HeapGraphNode_Type

record HeapGraphEdge =
  e_to_node_id :: uint64_t
  e_to_address :: uint64_t
  e_name_or_index :: uint64_t
  e_type :: HeapGraphEdge_Type

text \<open>
  \<open>class HeapSnapshotJSONSerializer\<close>: the two deques, the string table, the
  stream \<open>write_\<close> (the text of the output file, and whether the stream is open),
  and whether the member \<open>err\<close>, which is handed to every call, is in the failed
  state.
\<close>

record HeapSnapshotJSONSerializer =
  nodes :: "HeapGraphNode list"
  edges :: "HeapGraphEdge list"
  strings :: "string list"
  write_out :: string
  write_open :: bool
  err_Fail :: bool

definition HeapSnapshotJSONSerializer_new :: HeapSnapshotJSONSerializer where
  "HeapSnapshotJSONSerializer_new =
     \<lparr>nodes = [], edges = [], strings = [], write_out = [], write_open = False,
      err_Fail = False\<rparr>"

text \<open>
  What \<open>GetChildrenCount\<close> finds in an object: an element edge with its index or a
  property edge with the text of its key, each with the address it points to.
\<close>

datatype found_edge = ElementEdge uint64_t uint64_t | PropertyEdge string uint64_t

text \<open>
  The collaborators of the snapshot: the type constants that \<open>GetInstanceType\<close>
  compares with; the value of a field that was never assigned; the outcome of
  the decoding that \<open>GetChildrenCount\<close> does through llv8 and the by-value index for
  one object: the edges it appends, in order, and the number it returns
  (\<open>-1\<close>, that is \<open>2^64 - 1\<close>, when the object or its map does not check);
  whether the llv8 calls made for one instance leave \<open>err\<close> in the failed state;
  and the elements of one object that the element loop of \<open>GetChildrenCount\<close> looks
  up in the by-value index, in order (the elements that are read and are neither a
  hole, a small integer, an oddball nor a function).
\<close>

record Snapshot_Env = Heap_Env +
  kCodeType :: int
  kJSFunctionType :: int
  kJSRegExpType :: int
  kJSObjectType :: int
  kHeapNumberType :: int
  kJSArrayBufferType :: int
  kFixedArrayType :: int
  unassigned :: uint64_t
  GetChildrenCount_found :: "uint64_t \<Rightarrow> found_edge list \<times> uint64_t"
  err_Fail_after :: "uint64_t \<Rightarrow> bool"
  GetChildrenCount_lookups :: "uint64_t \<Rightarrow> uint64_t list"

text \<open>
  \<open>GetStringId\<close>: the position of the first occurrence of the name in
  \<open>strings_\<close>, the name being appended when it does not occur; the id is the
  position plus one.
\<close>

definition GetStringId :: "string \<Rightarrow> HeapSnapshotJSONSerializer \<Rightarrow> uint64_t \<times> HeapSnapshotJSONSerializer" where
  "GetStringId name st =
     (let position = length (takeWhile (\<lambda>x. x \<noteq> name) (strings st))
      in if position \<ge> length (strings st)
         then (of_nat (length (strings st)) + 1, st\<lparr>strings := strings st @ [name]\<rparr>)
         else (of_nat position + 1, st))"

text \<open>
  \<open>InitialEntry\<close> and \<open>AddGCRootsEntry\<close>. Both take \<open>next_id\<close> by value: the
  \<open>next_id += 2\<close> inside changes the copy only, so the caller's counter is not part
  of the result.
\<close>

definition InitialEntry ::
  "'e Snapshot_Env_scheme \<Rightarrow> uint64_t \<Rightarrow> HeapSnapshotJSONSerializer \<Rightarrow> HeapSnapshotJSONSerializer" where
  "InitialEntry env next_id st =
     (let r = GetStringId [] st
      in (snd r)\<lparr>nodes := nodes (snd r) @
            [\<lparr>n_address = 0, n_name = fst r, n_id = 1, n_size = 0, n_children = 0,
              n_trace_node_id = unassigned env, n_type = kSynthetic\<rparr>]\<rparr>)"

definition AddGCRootsEntry ::
  "'e Snapshot_Env_scheme \<Rightarrow> uint64_t \<Rightarrow> HeapSnapshotJSONSerializer \<Rightarrow> HeapSnapshotJSONSerializer" where
  "AddGCRootsEntry env next_id st =
     (let r = GetStringId ''(GC roots)'' st
      in (snd r)\<lparr>nodes := nodes (snd r) @
            [\<lparr>n_address = 0, n_name = fst r, n_id = next_id, n_size = 0, n_children = 0,
              n_trace_node_id = unassigned env, n_type = kSynthetic\<rparr>]\<rparr>)"

text \<open>
  \<open>GetInstanceType\<close>: the node type from the type of the object, read without a
  look at the error.
\<close>

definition GetInstanceType :: "'e Snapshot_Env_scheme \<Rightarrow> uint64_t \<Rightarrow> HeapGraphNode_Type" where
  "GetInstanceType env word =
     (let ty = value_of (GetType env word)
      in if ty = kCodeType env then kCode
         else if ty = kJSFunctionType env then kClosure
         else if ty = kJSRegExpType env then kRegExp
         else if ty = kJSObjectType env then kObject
         else if ty = kHeapNumberType env then kHeapNumber
         else if ty < kFirstNonstringType env then
           (if Representation env word = Some (kConsStringTag env) then kConsString
            else if Representation env word = Some (kSlicedStringTag env) then kSlicedString
            else kString)
         else if ty = kJSArrayBufferType env \<or> ty = kJSTypedArrayType env
                 \<or> ty = kFixedArrayType env \<or> ty = kJSArrayType env then kArray
         else kInvalid)"

text \<open>\<open>GetNodeSelfSize\<close>: 4 for a small integer, \<open>-1\<close> when the object or its map does not check.\<close>

definition GetNodeSelfSize :: "'e Snapshot_Env_scheme \<Rightarrow> uint64_t \<Rightarrow> uint64_t" where
  "GetNodeSelfSize env word =
     (if Smi_Check env word then 4
      else if \<not> HeapObject_Check env word then - 1
      else case GetMap env word of None \<Rightarrow> - 1 | Some m \<Rightarrow> InstanceSize env m)"

text \<open>
  \<open>GetChildrenCount\<close> as far as the serializer sees it: every edge found is appended
  to \<open>edges_\<close> (a property edge after \<open>GetStringId\<close> of its key; \<open>to_node_id_\<close>
  is not assigned here), and the count is returned.
\<close>

fun push_found_edges ::
  "'e Snapshot_Env_scheme \<Rightarrow> found_edge list \<Rightarrow> HeapSnapshotJSONSerializer \<Rightarrow> HeapSnapshotJSONSerializer" where
  "push_found_edges env [] st = st"
| "push_found_edges env (ElementEdge i to # rest) st =
     push_found_edges env rest
       (st\<lparr>edges := edges st @
             [\<lparr>e_to_node_id = unassigned env, e_to_address = to, e_name_or_index = i,
               e_type = kElement\<rparr>]\<rparr>)"
| "push_found_edges env (PropertyEdge key to # rest) st =
     (let r = GetStringId key st
      in push_found_edges env rest
           ((snd r)\<lparr>edges := edges (snd r) @
                 [\<lparr>e_to_node_id = unassigned env, e_to_address = to, e_name_or_index = fst r,
                   e_type = kProperty\<rparr>]\<rparr>))"

definition GetChildrenCount ::
  "'e Snapshot_Env_scheme \<Rightarrow> uint64_t \<Rightarrow> HeapSnapshotJSONSerializer \<Rightarrow> uint64_t \<times> HeapSnapshotJSONSerializer" where
  "GetChildrenCount env word st =
     (snd (GetChildrenCount_found env word),
      push_found_edges env (fst (GetChildrenCount_found env word)) st)"

text \<open>
  What the element loop of \<open>GetChildrenCount\<close> does to the \<open>LLScan\<close> for each
  element it looks up: when the by-value index is not loaded, \<open>ScanRefs\<close> of a
  \<open>ReferenceScanner\<close> for the element runs on the object; then
  \<open>GetReferencesByValue\<close> looks the element up, which creates its key.
\<close>

definition GetChildrenCount_index :: "'e Snapshot_Env_scheme \<Rightarrow> uint64_t \<Rightarrow> LLScan \<Rightarrow> LLScan" where
  "GetChildrenCount_index env word s =
     fold (\<lambda>element s.
             snd (GetReferencesByValue element
                    (if \<not> AreReferencesLoaded (ReferenceScanner element) s
                     then ScanRefs_JSObject env (ReferenceScanner element) word s else s)))
          (GetChildrenCount_lookups env word) s"

text \<open>
  The locals of \<open>DataEntry\<close> while it walks the instances: the id counter, the
  \<open>visitedNode\<close> map, the serializer and the \<open>LLScan\<close>.
\<close>

record DataEntry_locals =
  next_id :: uint64_t
  visitedNode :: "uint64_t \<rightharpoonup> HeapGraphNode"
  serializer :: HeapSnapshotJSONSerializer
  llscan :: LLScan

text \<open>
  The two nested loops of \<open>DataEntry\<close> over the records and their instances, on
  the list of (type name, instance) in the order of the enumeration. An instance that
  is in \<open>visitedNode\<close> ends \<open>DataEntry\<close> at once (the flag of the result);
  otherwise the instance takes the next id, and its node is appended unless
  \<open>GetChildrenCount\<close> returned \<open>-1\<close> or the type is \<open>kInvalid\<close>.
\<close>

fun DataEntry_instances ::
  "'e Snapshot_Env_scheme \<Rightarrow> (string \<times> uint64_t) list \<Rightarrow> DataEntry_locals \<Rightarrow> bool \<times> DataEntry_locals" where
  "DataEntry_instances env [] l = (False, l)"
| "DataEntry_instances env (r # rest) l =
     (if visitedNode l (snd r) \<noteq> None then (True, l)
      else
        (let name = GetStringId (fst r) (serializer l);
             children = GetChildrenCount env (snd r) (snd name);
             node = \<lparr>n_address = snd r, n_name = fst name, n_id = next_id l,
                     n_size = GetNodeSelfSize env (snd r), n_children = fst children,
                     n_trace_node_id = unassigned env, n_type = GetInstanceType env (snd r)\<rparr>;
             st1 = (snd children)\<lparr>err_Fail := err_Fail_after env (snd r)\<rparr>;
             l1 = l\<lparr>next_id := next_id l + 2, serializer := st1,
                    llscan := GetChildrenCount_index env (snd r) (llscan l)\<rparr>
         in if n_children node = - 1 then DataEntry_instances env rest l1
            else if n_type node = kInvalid then DataEntry_instances env rest l1
            else DataEntry_instances env rest
                   (l1\<lparr>serializer := st1\<lparr>nodes := nodes st1 @ [node]\<rparr>,
                       visitedNode := (visitedNode l)(snd r \<mapsto> node)\<rparr>)))"

text \<open>The last loop of \<open>DataEntry\<close>: the node id of the target of an edge, times 6, or 0.\<close>

definition resolve_edge :: "(uint64_t \<rightharpoonup> HeapGraphNode) \<Rightarrow> HeapGraphEdge \<Rightarrow> HeapGraphEdge" where
  "resolve_edge visited edge =
     (case visited (e_to_address edge) of
        None \<Rightarrow> edge\<lparr>e_to_node_id := 0\<rparr>
      | Some node \<Rightarrow>
          if n_address node \<noteq> e_to_address edge then edge\<lparr>e_to_node_id := 0\<rparr>
          else edge\<lparr>e_to_node_id := n_id node * 6\<rparr>)"

text \<open>The instances of the histogram as the two loops enumerate them, each with its type name.\<close>

definition histogram_instances :: "'e Snapshot_Env_scheme \<Rightarrow> LLScan \<Rightarrow> (string \<times> uint64_t) list" where
  "histogram_instances env s =
     concat (map (\<lambda>t. map (\<lambda>a. (type_name t, a)) (unordered_set_order env (instances t)))
               (map_order env (mapstoinstances s)))"

text \<open>
  \<open>HeapSnapshotJSONSerializer::DataEntry\<close>: the two synthetic entries and the walk
  over the instances, then the resolution of the edges. \<open>DataEntry\<close> is the
  serializer it leaves; the \<open>LLScan\<close> it leaves is the one of the walk.
\<close>

definition DataEntry_walk ::
  "'e Snapshot_Env_scheme \<Rightarrow> LLScan \<Rightarrow> HeapSnapshotJSONSerializer \<Rightarrow> bool \<times> DataEntry_locals" where
  "DataEntry_walk env s st =
     (let st1 = InitialEntry env 1 st;
          st2 = AddGCRootsEntry env 1 st1
      in DataEntry_instances env (histogram_instances env s)
           \<lparr>next_id = 1, visitedNode = Map.empty, serializer = st2, llscan = s\<rparr>)"

definition DataEntry ::
  "'e Snapshot_Env_scheme \<Rightarrow> LLScan \<Rightarrow> HeapSnapshotJSONSerializer \<Rightarrow> HeapSnapshotJSONSerializer" where
  "DataEntry env s st =
     (let r = DataEntry_walk env s st;
          st3 = serializer (snd r)
      in if fst r then st3
         else st3\<lparr>edges := map (resolve_edge (visitedNode (snd r))) (edges st3)\<rparr>)"

text \<open>
  The ids of a list of instance nodes are in order: strictly increasing in emission
  order, odd, and below a bound.
\<close>

definition instance_ids_ok :: "nat \<Rightarrow> HeapGraphNode list \<Rightarrow> bool" where
  "instance_ids_ok bound ns =
     (sorted_wrt (<) (map (\<lambda>n. unat (n_id n)) ns)
      \<and> list_all (\<lambda>n. odd (unat (n_id n)) \<and> unat (n_id n) < bound) ns)"

text \<open>The synthetic root node that \<open>InitialEntry\<close> appends to an empty string table.\<close>

definition root_node :: "'e Snapshot_Env_scheme \<Rightarrow> HeapGraphNode" where
  "root_node env =
     \<lparr>n_address = 0, n_name = 1, n_id = 1, n_size = 0, n_children = 0,
      n_trace_node_id = unassigned env, n_type = kSynthetic\<rparr>"

section \<open>Writing the snapshot\<close>

text \<open>\<open>std::endl\<close>, the double quote, and a signed number as a stream prints it.\<close>

definition endl :: string where
  "endl = [CHR 0x0A]"

definition dquote :: string where
  "dquote = [CHR 0x22]"

definition int_to_string :: "int \<Rightarrow> string" where
  "int_to_string i = (if i < 0 then ''-'' @ to_string (nat (- i)) else to_string (nat i))"

definition uint64_to_string :: "uint64_t \<Rightarrow> string" where
  "uint64_to_string w = to_string (unat w)"

text \<open>The macros \<open>JSON_A\<close>, \<open>JSON_O\<close> and \<open>JSON_S\<close> of \<open>SnapshotSerializer\<close>.\<close>

definition JSON_A :: "string \<Rightarrow> string" where
  "JSON_A s = ''['' @ s @ '']''"

definition JSON_O :: "string \<Rightarrow> string" where
  "JSON_O s = ''{'' @ s @ ''}''"

definition JSON_S :: "string \<Rightarrow> string" where
  "JSON_S s = dquote @ s @ dquote"

text \<open>The object that \<open>SnapshotSerializer\<close> writes after \<open>"meta":\<close>.\<close>

definition meta_object :: string where
  "meta_object =
     JSON_O (
       JSON_S ''node_fields'' @ '':'' @ JSON_A (
           JSON_S ''type'' @ '','' @
           JSON_S ''name'' @ '','' @
           JSON_S ''id'' @ '','' @
           JSON_S ''self_size'' @ '','' @
           JSON_S ''edge_count'' @ '','' @
           JSON_S ''trace_node_id'') @ '','' @
       JSON_S ''node_types'' @ '':'' @ JSON_A (
           JSON_A (
               JSON_S ''hidden'' @ '','' @
               JSON_S ''array'' @ '','' @
               JSON_S ''string'' @ '','' @
               JSON_S ''object'' @ '','' @
               JSON_S ''code'' @ '','' @
               JSON_S ''closure'' @ '','' @
               JSON_S ''regexp'' @ '','' @
               JSON_S ''number'' @ '','' @
               JSON_S ''native'' @ '','' @
               JSON_S ''synthetic'' @ '','' @
               JSON_S ''concatenated string'' @ '','' @
               JSON_S ''sliced string'') @ '','' @
           JSON_S ''string'' @ '','' @
           JSON_S ''number'' @ '','' @
           JSON_S ''number'' @ '','' @
           JSON_S ''number'' @ '','' @
           JSON_S ''number'' @ '','' @
           JSON_S ''number'') @ '','' @
       JSON_S ''edge_fields'' @ '':'' @ JSON_A (
           JSON_S ''type'' @ '','' @
           JSON_S ''name_or_index'' @ '','' @
           JSON_S ''to_node'') @ '','' @
       JSON_S ''edge_types'' @ '':'' @ JSON_A (
           JSON_A (
               JSON_S ''context'' @ '','' @
               JSON_S ''element'' @ '','' @
               JSON_S ''property'' @ '','' @
               JSON_S ''internal'' @ '','' @
               JSON_S ''hidden'' @ '','' @
               JSON_S ''shortcut'' @ '','' @
               JSON_S ''weak'') @ '','' @
           JSON_S ''string_or_number'' @ '','' @
           JSON_S ''node'') @ '','' @
       JSON_S ''trace_function_info_fields'' @ '':'' @ JSON_A (
           JSON_S ''function_id'' @ '','' @
           JSON_S ''name'' @ '','' @
           JSON_S ''script_name'' @ '','' @
           JSON_S ''script_id'' @ '','' @
           JSON_S ''line'' @ '','' @
           JSON_S ''column'') @ '','' @
       JSON_S ''trace_node_fields'' @ '':'' @ JSON_A (
           JSON_S ''id'' @ '','' @
           JSON_S ''function_info_index'' @ '','' @
           JSON_S ''count'' @ '','' @
           JSON_S ''size'' @ '','' @
           JSON_S ''children'') @ '','' @
       JSON_S ''sample_fields'' @ '':'' @ JSON_A (
           JSON_S ''timestamp_us'' @ '','' @
           JSON_S ''last_assigned_id''))"

text \<open>\<open>write_ << x\<close>: the text is appended to the file.\<close>

definition put :: "string \<Rightarrow> HeapSnapshotJSONSerializer \<Rightarrow> HeapSnapshotJSONSerializer" where
  "put x st = st\<lparr>write_out := write_out st @ x\<rparr>"

definition SnapshotSerializer :: "HeapSnapshotJSONSerializer \<Rightarrow> HeapSnapshotJSONSerializer" where
  "SnapshotSerializer st =
     put (JSON_S ''meta'' @ '':'' @ meta_object
          @ '','' @ JSON_S ''node_count'' @ '':'' @ to_string (length (nodes st))
          @ '','' @ JSON_S ''edge_count'' @ '':'' @ to_string (length (edges st))
          @ '','' @ JSON_S ''trace_function_count'' @ '':'' @ to_string 0) st"

definition SerializeNode :: "HeapGraphNode \<Rightarrow> bool \<Rightarrow> HeapSnapshotJSONSerializer \<Rightarrow> HeapSnapshotJSONSerializer" where
  "SerializeNode node initial_node st =
     put ((if \<not> initial_node then '','' else [])
          @ int_to_string (HeapGraphNode_Type_number (n_type node)) @ '',''
          @ uint64_to_string (n_name node) @ '',''
          @ uint64_to_string (n_id node) @ '',''
          @ uint64_to_string (n_size node) @ '',''
          @ uint64_to_string (n_children node) @ '',''
          @ uint64_to_string (n_trace_node_id node) @ endl) st"

text \<open>
  \<open>SerializeNodes\<close>, \<open>SerializeEdges\<close> and \<open>SerializeStrings\<close>: each loop leaves
  after an element when \<open>err\<close> is in the failed state.
\<close>

fun SerializeNodes_loop :: "HeapGraphNode list \<Rightarrow> bool \<Rightarrow> HeapSnapshotJSONSerializer \<Rightarrow> HeapSnapshotJSONSerializer" where
  "SerializeNodes_loop [] initial_node st = st"
| "SerializeNodes_loop (node # rest) initial_node st =
     (let st1 = SerializeNode node initial_node st
      in if err_Fail st1 then st1 else SerializeNodes_loop rest False st1)"

definition SerializeNodes :: "HeapSnapshotJSONSerializer \<Rightarrow> HeapSnapshotJSONSerializer" where
  "SerializeNodes st = SerializeNodes_loop (nodes st) True st"

definition SerializeEdge :: "HeapGraphEdge \<Rightarrow> bool \<Rightarrow> HeapSnapshotJSONSerializer \<Rightarrow> HeapSnapshotJSONSerializer" where
  "SerializeEdge edge initial_edge st =
     put ((if \<not> initial_edge then '','' else [])
          @ int_to_string (HeapGraphEdge_Type_number (e_type edge)) @ '',''
          @ uint64_to_string (e_name_or_index edge) @ '',''
          @ uint64_to_string (e_to_node_id edge) @ endl) st"

fun SerializeEdges_loop :: "HeapGraphEdge list \<Rightarrow> bool \<Rightarrow> HeapSnapshotJSONSerializer \<Rightarrow> HeapSnapshotJSONSerializer" where
  "SerializeEdges_loop [] initial_edge st = st"
| "SerializeEdges_loop (edge # rest) initial_edge st =
     (let st1 = SerializeEdge edge initial_edge st
      in if err_Fail st1 then st1 else SerializeEdges_loop rest False st1)"

definition SerializeEdges :: "HeapSnapshotJSONSerializer \<Rightarrow> HeapSnapshotJSONSerializer" where
  "SerializeEdges st = SerializeEdges_loop (edges st) True st"

definition SerializeString :: "string \<Rightarrow> HeapSnapshotJSONSerializer \<Rightarrow> HeapSnapshotJSONSerializer" where
  "SerializeString s st = put (dquote @ s @ dquote @ '','' @ endl) st"

fun SerializeStrings_loop :: "string list \<Rightarrow> HeapSnapshotJSONSerializer \<Rightarrow> HeapSnapshotJSONSerializer" where
  "SerializeStrings_loop [] st = st"
| "SerializeStrings_loop (s # rest) st =
     (let st1 = SerializeString s st
      in if err_Fail st1 then st1 else SerializeStrings_loop rest st1)"

definition SerializeStrings :: "HeapSnapshotJSONSerializer \<Rightarrow> HeapSnapshotJSONSerializer" where
  "SerializeStrings st = SerializeStrings_loop (strings st) (put (JSON_S ''<dummy>'') st)"

text \<open>\<open>ImplementSnapshot\<close>, statement by statement.\<close>

definition ImplementSnapshot :: "HeapSnapshotJSONSerializer \<Rightarrow> HeapSnapshotJSONSerializer" where
  "ImplementSnapshot st =
     (let st = put ''{'' st;
          st = put (JSON_S ''snapshot'' @ '':{'') st;
          st = SnapshotSerializer st;
          st = put (''},'' @ endl) st;
          st = put (JSON_S ''nodes'' @ '':['') st;
          st = SerializeNodes st;
          st = put (''],'' @ endl) st;
          st = put (JSON_S ''edges'' @ '':['') st;
          st = SerializeEdges st;
          st = put ('']'' @ endl) st;
          st = put (JSON_S ''trace_function_infos'' @ '':['') st;
          st = put ('']'' @ endl) st;
          st = put (JSON_S ''trace_tree'' @ '':['') st;
          st = put ('']'' @ endl) st;
          st = put (JSON_S ''samples'' @ '':['') st;
          st = put (''],'' @ endl) st;
          st = put (JSON_S ''strings'' @ '':['') st;
          st = SerializeStrings st
      in put (''],'' @ endl) st)"

text \<open>
  \<open>HeapSnapshotJSONSerializer::DoExecute\<close>. \<open>write_.open\<close> comes first: it
  empties the file, unless the stream is still open from a call that returned before
  \<open>write_.close()\<close>; then \<open>open\<close> fails, the stream is in the failed state and
  everything this call writes is lost. With a valid target the heap is scanned,
  \<open>DataEntry\<close> builds the graph, \<open>ImplementSnapshot\<close> writes it and the stream
  is closed. The result, when the heap scan returns
  (\<open>ScanHeapForObjects_returns\<close>), is the return value, the serializer (with the
  file) and the \<open>LLScan\<close>.
\<close>

definition HeapSnapshotJSONSerializer_DoExecute ::
  "'e Snapshot_Env_scheme \<Rightarrow> bool \<Rightarrow> SBTarget \<Rightarrow> HeapSnapshotJSONSerializer \<times> LLScan
   \<Rightarrow> bool \<times> HeapSnapshotJSONSerializer \<times> LLScan" where
  "HeapSnapshotJSONSerializer_DoExecute env valid tgt sl =
     (let opened = \<not> write_open (fst sl);
          st = (if opened then (fst sl)\<lparr>write_out := [], write_open := True\<rparr> else fst sl)
      in if \<not> valid then (False, st, snd sl)
         else
           (let r = ScanHeapForObjects env tgt (snd sl)
            in if \<not> fst r then (False, st, snd r)
               else (True,
                     (if opened then ImplementSnapshot (DataEntry env (snd r) st)
                      else DataEntry env (snd r) st)\<lparr>write_open := False\<rparr>,
                     llscan (snd (DataEntry_walk env (snd r) st)))))"

section \<open>Example sessions\<close>


text \<open>
  A session whose last scan of target 2 found 25 instances of type \<open>Foo\<close>, at the
  addresses 1 to 25, each of 8 bytes.
\<close>

definition foo_addresses :: "uint64_t list" where
  "foo_addresses =
     [1, 2, 3, 4, 5, 6, 7, 8, 9, 10, 11, 12, 13, 14, 15, 16, 17, 18, 19, 20, 21, 22, 23, 24, 25]"




text \<open>
  Two processes. The memory of the first holds an object of type \<open>Old\<close> at
  \<open>0x10\<close> (map \<open>0x100\<close>, 24 bytes) and a context at \<open>0x18\<close> (map \<open>0x108\<close>); the
  memory of the second holds an object of type \<open>New\<close> at \<open>0x20\<close> (map \<open>0x200\<close>,
  32 bytes). Neither type has properties or elements.
\<close>

definition plain_entry :: "string \<Rightarrow> MapCacheEntry" where
  "plain_entry name =
     \<lparr>mce_type_name = name, is_histogram = True, is_context = False, properties = [],
      mce_own_descriptors_count = 0, mce_indexed_properties_count = 0\<rparr>"

definition context_entry :: MapCacheEntry where
  "context_entry =
     \<lparr>mce_type_name = [], is_histogram = False, is_context = True, properties = [],
      mce_own_descriptors_count = 0, mce_indexed_properties_count = 0\<rparr>"

definition old_env :: Scan_Env where
  "old_env =
     \<lparr>GetAddressByteSize = 8,
      GetMemoryRegions = [\<lparr>IsWritable = True, blocks = [Some [0x10, 0x18]]\<rparr>],
      Smi_Check = (\<lambda>w. False), HeapObject_Check = (\<lambda>w. True),
      GetMap = (\<lambda>w. if w = 0x10 then Some 0x100 else if w = 0x18 then Some 0x108 else None),
      MapCacheEntry_Load =
        (\<lambda>m w. if m = 0x100 then Some (plain_entry ''Old'')
               else if m = 0x108 then Some context_entry else None),
      InstanceSize = (\<lambda>m. 24), InstanceSize_ok = (\<lambda>m. True),
      unordered_set_order = (\<lambda>S. []), map_order = (\<lambda>m. [])\<rparr>"

definition new_env :: Scan_Env where
  "new_env =
     \<lparr>GetAddressByteSize = 8,
      GetMemoryRegions = [\<lparr>IsWritable = True, blocks = [Some [0x20]]\<rparr>],
      Smi_Check = (\<lambda>w. False), HeapObject_Check = (\<lambda>w. True),
      GetMap = (\<lambda>w. if w = 0x20 then Some 0x200 else None),
      MapCacheEntry_Load = (\<lambda>m w. if m = 0x200 then Some (plain_entry ''New'') else None),
      InstanceSize = (\<lambda>m. 32), InstanceSize_ok = (\<lambda>m. True),
      unordered_set_order = (\<lambda>S. []), map_order = (\<lambda>m. [])\<rparr>"

text \<open>
  The session after the scan of the first process (target 2) and one by-value query
  for the references to \<open>0x10\<close>.
\<close>

definition old_session :: LLScan where
  "old_session =
     snd (GetReferencesByValue 0x10 (snd (ScanHeapForObjects old_env 2 (LLScan_new 0))))"

text \<open>
  A heap in which nothing decodes: every read fails, every object is empty. The
  examples below change the accessors they need. The type constants are arbitrary
  but distinct; types below 64 are string types.
\<close>

definition nothing_env :: Heap_Env where
  "nothing_env =
     \<lparr>GetAddressByteSize = 8, GetMemoryRegions = [],
      Smi_Check = (\<lambda>w. False), HeapObject_Check = (\<lambda>w. False), GetMap = (\<lambda>w. None),
      MapCacheEntry_Load = (\<lambda>m w. None), InstanceSize = (\<lambda>m. 0), InstanceSize_ok = (\<lambda>m. False),
      unordered_set_order = (\<lambda>S. []), map_order = (\<lambda>m. []),
      GetType = (\<lambda>a. (False, - 1)), IsObjectType = (\<lambda>t. t = 200),
      kJSArrayType = 201, kJSTypedArrayType = 202, kFirstNonstringType = 64,
      GetArrayLength = (\<lambda>a. 0), GetArrayElement = (\<lambda>a i. (False, 0)),
      Entries = (\<lambda>a. (False, [])), Value_ToString = (\<lambda>a. (False, [])),
      String_ToString = (\<lambda>a. (False, [])), Representation = (\<lambda>a. None),
      kSlicedStringTag = 3, kConsStringTag = 1, kThinStringTag = 5,
      Parent = (\<lambda>a. (False, 0)), First = (\<lambda>a. (False, 0)), Second = (\<lambda>a. (False, 0)),
      Actual = (\<lambda>a. (False, 0)), Locals = (\<lambda>a. None)\<rparr>"

text \<open>
  An object at \<open>0x10\<close> with two properties. Their keys \<open>0x30\<close> and \<open>0x38\<close> are
  two distinct symbols with the same description, so both keys have the text
  \<open>Symbol('id')\<close>; both values are the string \<open>0x40\<close> with the text \<open>hello\<close>.
\<close>

definition two_symbols_env :: Heap_Env where
  "two_symbols_env =
     nothing_env
       \<lparr>GetType := (\<lambda>a. if a = 0x10 then (True, 200) else if a = 0x40 then (True, 8)
                         else (False, - 1)),
        Entries := (\<lambda>a. if a = 0x10 then (True, [(0x30, 0x40), (0x38, 0x40)]) else (False, [])),
        Value_ToString := (\<lambda>a. if a = 0x30 \<or> a = 0x38 then (True, ''Symbol('id')'')
                                else (False, [])),
        String_ToString := (\<lambda>a. if a = 0x40 then (True, ''hello'') else (False, []))\<rparr>"

text \<open>
  Two objects that refer to each other: \<open>0x10\<close> is referenced by \<open>0x20\<close> and
  \<open>0x20\<close> by \<open>0x10\<close>; the context \<open>0x18\<close> has one local variable, which holds
  \<open>0x10\<close>. The by-value index is loaded.
\<close>

definition cycle_env :: Heap_Env where
  "cycle_env =
     nothing_env
       \<lparr>unordered_set_order := (\<lambda>S. [0x18]),
        GetType := (\<lambda>a. if a = 0x10 \<or> a = 0x20 then (True, 200) else (False, - 1)),
        Locals := (\<lambda>a. if a = 0x18 then Some [0x10] else None)\<rparr>"

definition cycle_session :: LLScan where
  "cycle_session =
     (LLScan_new 2)
       \<lparr>references_by_value := [0x10 \<mapsto> [0x20], 0x20 \<mapsto> [0x10]], contexts := {0x18}\<rparr>"

text \<open>
  A diamond: \<open>0x10\<close> is referenced by \<open>0x20\<close> and by \<open>0x28\<close>, and both of these
  are referenced by \<open>0x30\<close>, which nothing references. There is no context. The
  by-value index is loaded.
\<close>

definition diamond_env :: Heap_Env where
  "diamond_env =
     nothing_env
       \<lparr>GetType := (\<lambda>a. if a = 0x10 \<or> a = 0x20 \<or> a = 0x28 \<or> a = 0x30 then (True, 200)
                         else (False, - 1))\<rparr>"

definition diamond_session :: LLScan where
  "diamond_session =
     (LLScan_new 2)
       \<lparr>references_by_value := [0x10 \<mapsto> [0x20, 0x28], 0x20 \<mapsto> [0x30], 0x28 \<mapsto> [0x30]]\<rparr>"

text \<open>
  The snapshot collaborators over a heap: arbitrary distinct type constants, no
  edges found, no failure, no element looked up.
\<close>

definition snapshot_env :: "Heap_Env \<Rightarrow> Snapshot_Env" where
  "snapshot_env h =
     Heap_Env.extend h
       (Snapshot_Env.fields 210 211 212 200 213 214 215 0 (\<lambda>a. ([], 0)) (\<lambda>a. False)
          (\<lambda>a. []))"

text \<open>
  A session with one record \<open>Object\<close> of two instances, \<open>0x10\<close> and \<open>0x20\<close>, both
  plain objects of 24 bytes with map \<open>0x100\<close>.
\<close>

definition two_objects_session :: LLScan where
  "two_objects_session =
     (LLScan_new 2)\<lparr>mapstoinstances :=
        [''Object'' \<mapsto> \<lparr>type_name = ''Object'', instance_count = 2, total_instance_size = 48,
                         instances = {0x10, 0x20}\<rparr>]\<rparr>"

definition two_objects_env :: Snapshot_Env where
  "two_objects_env =
     snapshot_env
       (nothing_env
          \<lparr>HeapObject_Check := (\<lambda>w. True), GetMap := (\<lambda>w. Some 0x100), InstanceSize := (\<lambda>m. 24),
           unordered_set_order := (\<lambda>S. [0x10, 0x20]),
           map_order := (\<lambda>m. case m ''Object'' of None \<Rightarrow> [] | Some t \<Rightarrow> [t]),
           GetType := (\<lambda>a. (True, 200))\<rparr>)"

section \<open>FindReferencesCmd: printing the references\<close>

text \<open>\<open>class ScanOptions\<close>.\<close>

datatype ScanType = kFieldValue | kPropertyName | kStringValue | kBadOption

record ScanOptions =
  scan_type :: ScanType
  recursive_scan :: bool

definition ScanOptions_new :: ScanOptions where
  "ScanOptions_new = \<lparr>scan_type = kFieldValue, recursive_scan = False\<rparr>"

text \<open>
  What the printing writes to the result, as events: a call of the scanner's
  \<open>PrintRefs\<close> for an object or for a string (it prints the slots of the referrer
  that hold the search value; it changes nothing else), the branch mark of
  \<open>PrintRecursiveReferences\<close> with its level, the mark \<open>[seen above]\<close>, and the
  line of \<open>PrintContextRefs\<close> for a context with a local variable that holds the
  search value.
\<close>

datatype print_event =
    PrintRefs_JSObject ObjectScanner uint64_t nat
  | PrintRefs_String ObjectScanner uint64_t nat
  | Branch nat
  | SeenAbove
  | ContextLine uint64_t uint64_t

text \<open>
  The state that the printing functions share: the \<open>LLScan\<close> (the lookups create
  entries), the vector \<open>already_visited_references\<close>, which every call receives as
  a pointer to the one vector of \<open>DoExecute\<close>, and what was printed.
\<close>

record Print_state =
  p_llscan :: LLScan
  visited_references :: "uint64_t list"
  printed :: "print_event list"

definition emit :: "print_event \<Rightarrow> Print_state \<Rightarrow> Print_state" where
  "emit e st = st\<lparr>printed := printed st @ [e]\<rparr>"

text \<open>
  \<open>FindReferencesCmd::PrintReferences\<close> with its loop over the references,
  \<open>FindReferencesCmd::PrintRecursiveReferences\<close>, and the virtual
  \<open>PrintContextRefs\<close> (of \<open>ReferenceScanner\<close>; the other scanners inherit the
  method that does nothing) with its loops over the contexts and over the locals of a
  context.
\<close>

function
  PrintReferences ::
    "'e Heap_Env_scheme \<Rightarrow> ReferencesVector \<Rightarrow> ObjectScanner \<Rightarrow> ScanOptions \<Rightarrow> nat
     \<Rightarrow> Print_state \<Rightarrow> Print_state"
and PrintReferences_loop ::
    "'e Heap_Env_scheme \<Rightarrow> ReferencesVector \<Rightarrow> ObjectScanner \<Rightarrow> ScanOptions \<Rightarrow> nat
     \<Rightarrow> Print_state \<Rightarrow> Print_state"
and PrintRecursiveReferences ::
    "'e Heap_Env_scheme \<Rightarrow> ScanOptions \<Rightarrow> uint64_t \<Rightarrow> nat \<Rightarrow> Print_state \<Rightarrow> Print_state"
and PrintContextRefs ::
    "'e Heap_Env_scheme \<Rightarrow> ObjectScanner \<Rightarrow> ScanOptions \<Rightarrow> nat \<Rightarrow> Print_state \<Rightarrow> Print_state"
and PrintContextRefs_contexts ::
    "'e Heap_Env_scheme \<Rightarrow> uint64_t \<Rightarrow> ScanOptions \<Rightarrow> nat \<Rightarrow> uint64_t list
     \<Rightarrow> Print_state \<Rightarrow> Print_state"
and PrintContextRefs_locals ::
    "'e Heap_Env_scheme \<Rightarrow> uint64_t \<Rightarrow> ScanOptions \<Rightarrow> nat \<Rightarrow> uint64_t \<Rightarrow> uint64_t list
     \<Rightarrow> Print_state \<Rightarrow> Print_state"
where
  "PrintReferences env references scanner options level st =
     PrintContextRefs env scanner options level
       (PrintReferences_loop env references scanner options level st)"
| "PrintReferences_loop env [] scanner options level st = st"
| "PrintReferences_loop env (addr # rest) scanner options level st =
     (if IsObjectType env (value_of (GetType env addr))
         \<or> value_of (GetType env addr) = kJSArrayType env
      then PrintReferences_loop env rest scanner options level
             (if recursive_scan options
              then PrintRecursiveReferences env options addr level
                     (emit (PrintRefs_JSObject scanner addr level) st)
              else emit (PrintRefs_JSObject scanner addr level) st)
      else if value_of (GetType env addr) < kFirstNonstringType env
      then PrintReferences_loop env rest scanner options level
             (if recursive_scan options
              then PrintRecursiveReferences env options addr level
                     (emit (PrintRefs_String scanner addr level) st)
              else emit (PrintRefs_String scanner addr level) st)
      else PrintReferences_loop env rest scanner options level st)"
| "PrintRecursiveReferences env options address level st =
     (if address \<in> set (visited_references st)
      then emit SeenAbove (emit (Branch level) st)
      else PrintReferences env
             (fst (GetReferences (ReferenceScanner address) (p_llscan st)))
             (ReferenceScanner address) options (level + 1)
             ((emit (Branch level) st)
                \<lparr>visited_references := visited_references st @ [address],
                 p_llscan := snd (GetReferences (ReferenceScanner address) (p_llscan st))\<rparr>))"
| "PrintContextRefs env (ReferenceScanner search_value) options level st =
     PrintContextRefs_contexts env search_value options level
       (unordered_set_order env (contexts (p_llscan st))) st"
| "PrintContextRefs env (PropertyScanner search_value) options level st = st"
| "PrintContextRefs env (StringScanner search_value) options level st = st"
| "PrintContextRefs_contexts env search_value options level [] st = st"
| "PrintContextRefs_contexts env search_value options level (ctx # rest) st =
     (case Locals env ctx of
        None \<Rightarrow> PrintContextRefs_contexts env search_value options level rest st
      | Some locals \<Rightarrow>
          PrintContextRefs_contexts env search_value options level rest
            (PrintContextRefs_locals env search_value options level ctx locals st))"
| "PrintContextRefs_locals env search_value options level ctx [] st = st"
| "PrintContextRefs_locals env search_value options level ctx (l # rest) st =
     (if l = search_value
      then PrintContextRefs_locals env search_value options level ctx rest
             (if recursive_scan options
              then PrintRecursiveReferences env options ctx level
                     (emit (ContextLine ctx search_value) st)
              else emit (ContextLine ctx search_value) st)
      else PrintContextRefs_locals env search_value options level ctx rest st)"
  by pat_completeness auto

text \<open>
  Termination. The addresses are 64-bit words, so the addresses that are not yet in
  \<open>already_visited_references\<close> are finitely many; \<open>PrintRecursiveReferences\<close>
  calls \<open>PrintReferences\<close> only after it has appended a new address, and no
  function removes one. The measure is the number of unvisited addresses, then the
  place in the call order of the six functions, then the length of the list a loop
  has left.
\<close>

definition unvisited :: "Print_state \<Rightarrow> nat" where
  "unvisited st = card (- set (visited_references st))"

fun print_measure where
  "print_measure (Inl (Inl (env, references, scanner, options, level, st))) = (unvisited st, 5::nat, 0::nat)"
| "print_measure (Inl (Inr (Inl (env, references, scanner, options, level, st)))) = (unvisited st, 4, length references)"
| "print_measure (Inl (Inr (Inr (env, options, address, level, st)))) = (unvisited st, 0, 0)"
| "print_measure (Inr (Inl (env, scanner, options, level, st))) = (unvisited st, 3, 0)"
| "print_measure (Inr (Inr (Inl (env, search_value, options, level, ctxs, st)))) = (unvisited st, 2, length ctxs)"
| "print_measure (Inr (Inr (Inr (env, search_value, options, level, ctx, locals, st)))) = (unvisited st, 1, length locals)"

lemmas print_psimps = PrintReferences.psimps PrintReferences_loop.psimps PrintRecursiveReferences.psimps
  PrintContextRefs.psimps PrintContextRefs_contexts.psimps PrintContextRefs_locals.psimps

lemma visited_mono_dom:
  "PrintReferences_PrintReferences_loop_PrintRecursiveReferences_PrintContextRefs_PrintContextRefs_contexts_PrintContextRefs_locals_dom
     (Inl (Inl (env, references, scanner, options, level, st))) \<Longrightarrow>
   set (visited_references st)
     \<subseteq> set (visited_references (PrintReferences env references scanner options level st))"
  "PrintReferences_PrintReferences_loop_PrintRecursiveReferences_PrintContextRefs_PrintContextRefs_contexts_PrintContextRefs_locals_dom
     (Inl (Inr (Inl (env, references, scanner, options, level, st)))) \<Longrightarrow>
   set (visited_references st)
     \<subseteq> set (visited_references (PrintReferences_loop env references scanner options level st))"
  "PrintReferences_PrintReferences_loop_PrintRecursiveReferences_PrintContextRefs_PrintContextRefs_contexts_PrintContextRefs_locals_dom
     (Inl (Inr (Inr (env, options, address, level, st)))) \<Longrightarrow>
   set (visited_references st)
     \<subseteq> set (visited_references (PrintRecursiveReferences env options address level st))"
  "PrintReferences_PrintReferences_loop_PrintRecursiveReferences_PrintContextRefs_PrintContextRefs_contexts_PrintContextRefs_locals_dom
     (Inr (Inl (env, scanner, options, level, st))) \<Longrightarrow>
   set (visited_references st)
     \<subseteq> set (visited_references (PrintContextRefs env scanner options level st))"
  "PrintReferences_PrintReferences_loop_PrintRecursiveReferences_PrintContextRefs_PrintContextRefs_contexts_PrintContextRefs_locals_dom
     (Inr (Inr (Inl (env, search_value, options, level, ctxs, st)))) \<Longrightarrow>
   set (visited_references st)
     \<subseteq> set (visited_references (PrintContextRefs_contexts env search_value options level ctxs st))"
  "PrintReferences_PrintReferences_loop_PrintRecursiveReferences_PrintContextRefs_PrintContextRefs_contexts_PrintContextRefs_locals_dom
     (Inr (Inr (Inr (env, search_value, options, level, ctx, locals, st)))) \<Longrightarrow>
   set (visited_references st)
     \<subseteq> set (visited_references (PrintContextRefs_locals env search_value options level ctx locals st))"
proof (induct rule: PrintReferences_PrintReferences_loop_PrintRecursiveReferences_PrintContextRefs_PrintContextRefs_contexts_PrintContextRefs_locals.pinduct)
  case (1 env references scanner options level st)
  then show ?case by (auto simp add: print_psimps; blast)
next
  case (2 env scanner options level st)
  then show ?case by (simp add: print_psimps)
next
  case (3 env addr rest scanner options level st)
  then show ?case by (auto simp add: print_psimps emit_def split: if_splits; blast)
next
  case (4 env options address level st)
  then show ?case by (auto simp add: print_psimps emit_def split: if_splits; blast)
next
  case (5 env search_value options level st)
  then show ?case by (simp add: print_psimps)
next
  case (6 env search_value options level st)
  then show ?case by (simp add: print_psimps)
next
  case (7 env search_value options level st)
  then show ?case by (simp add: print_psimps)
next
  case (8 env search_value options level st)
  then show ?case by (simp add: print_psimps)
next
  case (9 env search_value options level ctx rest st)
  then show ?case by (auto simp add: print_psimps split: option.splits; blast)
next
  case (10 env search_value options level ctx st)
  then show ?case by (simp add: print_psimps)
next
  case (11 env search_value options level ctx l rest st)
  then show ?case by (auto simp add: print_psimps emit_def split: if_splits; blast)
qed


lemma unvisited_mono:
  "set (visited_references st) \<subseteq> set (visited_references st') \<Longrightarrow> unvisited st' \<le> unvisited st"
  by (auto simp: unvisited_def intro!: card_mono)

lemma unvisited_less:
  "address \<notin> set (visited_references st) \<Longrightarrow>
   visited_references st' = visited_references st @ [address] \<Longrightarrow> unvisited st' < unvisited st"
  by (auto simp: unvisited_def intro!: psubset_card_mono)

text \<open>
  Every argument of each of the six functions is in the accessible part of the
  relation of their recursive calls: no chain of calls from it is infinite.
\<close>

lemma Print_functions_terminate:
  "All PrintReferences_PrintReferences_loop_PrintRecursiveReferences_PrintContextRefs_PrintContextRefs_contexts_PrintContextRefs_locals_dom"
proof (relation "inv_image (less_than <*lex*> less_than <*lex*> less_than) print_measure",
    goal_cases)
  case 1
  show ?case by (intro wf_inv_image wf_lex_prod wf_less_than)
next
  case 2
  show ?case by simp
next
  case (3 env references scanner options level st)
  from unvisited_mono [OF visited_mono_dom(2) [OF this]] show ?case by auto
next
  case 4
  show ?case by (simp add: unvisited_def emit_def)
next
  case (5 env addr rest scanner options level st)
  have "unvisited (if recursive_scan options
          then PrintRecursiveReferences env options addr level
                 (emit (PrintRefs_JSObject scanner addr level) st)
          else emit (PrintRefs_JSObject scanner addr level) st) \<le> unvisited st"
  proof (cases "recursive_scan options")
    case True
    from unvisited_mono [OF visited_mono_dom(3) [OF 5(2) [OF True]]] True
    show ?thesis by (simp add: unvisited_def emit_def)
  next
    case False
    then show ?thesis by (simp add: unvisited_def emit_def)
  qed
  then show ?case by auto
next
  case 6
  show ?case by (simp add: unvisited_def emit_def)
next
  case (7 env addr rest scanner options level st)
  have "unvisited (if recursive_scan options
          then PrintRecursiveReferences env options addr level
                 (emit (PrintRefs_String scanner addr level) st)
          else emit (PrintRefs_String scanner addr level) st) \<le> unvisited st"
  proof (cases "recursive_scan options")
    case True
    from unvisited_mono [OF visited_mono_dom(3) [OF 7(3) [OF True]]] True
    show ?thesis by (simp add: unvisited_def emit_def)
  next
    case False
    then show ?thesis by (simp add: unvisited_def emit_def)
  qed
  then show ?case by auto
next
  case 8
  show ?case by simp
next
  case (9 env options address level st)
  have "unvisited ((emit (Branch level) st)
                \<lparr>visited_references := visited_references st @ [address],
                 p_llscan := snd (GetReferences (ReferenceScanner address) (p_llscan st))\<rparr>)
        < unvisited st"
    using 9 by (intro unvisited_less [of address]) simp_all
  then show ?case by simp
next
  case 10
  show ?case by simp
next
  case 11
  show ?case by simp
next
  case 12
  show ?case by simp
next
  case (13 env search_value options level ctx rest st locals)
  from unvisited_mono [OF visited_mono_dom(6) [OF 13(2)]] show ?case by auto
next
  case 14
  show ?case by (simp add: unvisited_def emit_def)
next
  case (15 env search_value options level ctx l rest st)
  have "unvisited (if recursive_scan options
          then PrintRecursiveReferences env options ctx level
                 (emit (ContextLine ctx search_value) st)
          else emit (ContextLine ctx search_value) st) \<le> unvisited st"
  proof (cases "recursive_scan options")
    case True
    from unvisited_mono [OF visited_mono_dom(3) [OF 15(2) [OF True]]] True
    show ?thesis by (simp add: unvisited_def emit_def)
  next
    case False
    then show ?thesis by (simp add: unvisited_def emit_def)
  qed
  then show ?case by auto
next
  case 16
  show ?case by simp
qed

termination PrintReferences
  by (rule Print_functions_terminate)

text \<open>
  Reading the output: the lines that list a referrer of the value \<open>a\<close> (the lines
  that \<open>PrintRefs\<close> of a by-value scanner for \<open>a\<close> prints), each as the referrer
  and the level of the tree it was printed at.
\<close>

fun referrer_lines :: "uint64_t \<Rightarrow> print_event list \<Rightarrow> (uint64_t \<times> nat) list" where
  "referrer_lines a [] = []"
| "referrer_lines a (PrintRefs_JSObject scanner addr level # es) =
     (if scanner = ReferenceScanner a then (addr, level) # referrer_lines a es
      else referrer_lines a es)"
| "referrer_lines a (PrintRefs_String scanner addr level # es) =
     (if scanner = ReferenceScanner a then (addr, level) # referrer_lines a es
      else referrer_lines a es)"
| "referrer_lines a (e # es) = referrer_lines a es"

text \<open>
  Reading the expansions off the output. \<open>PrintRecursiveReferences\<close> is called in
  three places, each right after the line of the object it is called for was printed:
  the two \<open>PrintRefs\<close> calls of \<open>PrintReferences\<close> (the referrer) and the line
  of \<open>PrintContextRefs\<close> (the context). It prints the branch mark first and
  \<open>[seen above]\<close> right after it exactly when it does not expand the address. The
  reader keeps the address of the last such line, the addresses whose expansion is
  known, and the address of a branch mark that \<open>[seen above]\<close> may still follow.
\<close>

record expansion_reader =
  last_named :: "uint64_t option"
  confirmed :: "uint64_t list"
  tentative :: "uint64_t list"

fun read_event :: "expansion_reader \<Rightarrow> print_event \<Rightarrow> expansion_reader" where
  "read_event r (PrintRefs_JSObject scanner addr level) =
     \<lparr>last_named = Some addr, confirmed = confirmed r @ tentative r, tentative = []\<rparr>"
| "read_event r (PrintRefs_String scanner addr level) =
     \<lparr>last_named = Some addr, confirmed = confirmed r @ tentative r, tentative = []\<rparr>"
| "read_event r (ContextLine ctx v) =
     \<lparr>last_named = Some ctx, confirmed = confirmed r @ tentative r, tentative = []\<rparr>"
| "read_event r (Branch level) =
     r\<lparr>confirmed := confirmed r @ tentative r,
       tentative := (case last_named r of None \<Rightarrow> [] | Some a \<Rightarrow> [a])\<rparr>"
| "read_event r SeenAbove = r\<lparr>tentative := []\<rparr>"

text \<open>The reader after a whole output, and the addresses that were expanded, in order.\<close>

definition read_output :: "print_event list \<Rightarrow> expansion_reader" where
  "read_output es = foldl read_event \<lparr>last_named = None, confirmed = [], tentative = []\<rparr> es"

definition expanded_addresses :: "print_event list \<Rightarrow> uint64_t list" where
  "expanded_addresses es = confirmed (read_output es) @ tentative (read_output es)"

section \<open>FindReferencesCmd::DoExecute\<close>

text \<open>
  \<open>FindReferencesCmd::ParseScanOptions\<close> on the option characters that
  \<open>getopt_long\<close> returns, in order (the loop ends when it returns \<open>-1\<close>): \<open>r\<close>
  sets the recursive scan, \<open>v\<close>, \<open>n\<close> and \<open>s\<close> choose the scan type, anything
  else is a bad option, and an option after the scan type was chosen is a bad option
  that ends the loop.
\<close>

fun ParseScanOptions_loop :: "char list \<Rightarrow> bool \<Rightarrow> ScanOptions \<Rightarrow> ScanOptions" where
  "ParseScanOptions_loop [] found_scan_type options = options"
| "ParseScanOptions_loop (arg # rest) found_scan_type options =
     (if found_scan_type then options\<lparr>scan_type := kBadOption\<rparr>
      else if arg = CHR ''r''
      then ParseScanOptions_loop rest found_scan_type (options\<lparr>recursive_scan := True\<rparr>)
      else if arg = CHR ''v''
      then ParseScanOptions_loop rest True (options\<lparr>scan_type := kFieldValue\<rparr>)
      else if arg = CHR ''n''
      then ParseScanOptions_loop rest True (options\<lparr>scan_type := kPropertyName\<rparr>)
      else if arg = CHR ''s''
      then ParseScanOptions_loop rest True (options\<lparr>scan_type := kStringValue\<rparr>)
      else ParseScanOptions_loop rest found_scan_type (options\<lparr>scan_type := kBadOption\<rparr>))"

definition ParseScanOptions :: "char list \<Rightarrow> ScanOptions" where
  "ParseScanOptions getopt_results = ParseScanOptions_loop getopt_results False ScanOptions_new"

text \<open>
  The debugger as \<open>findrefs\<close> uses it: \<open>EvaluateExpression\<close> gives the error of the
  expression or its value (\<open>GetValueAsSigned\<close>); and the raw value of a
  default-constructed \<open>v8::Value\<close>.
\<close>

record FindRefs_Env = Heap_Env +
  EvaluateExpression :: "string \<Rightarrow> string + uint64_t"
  Value_default_raw :: uint64_t

text \<open>
  One call of \<open>findrefs\<close>: the option characters and the arguments that are left
  after the options (\<open>start\<close>; \<open>*start == nullptr\<close> is the empty list).
\<close>

record FindReferences_call = Command_call +
  getopt_results :: "char list"
  start :: "string list"

datatype ReturnStatus = eReturnStatusFailed | eReturnStatusSuccessFinishResult

text \<open>
  What a call leaves: the return value, the error and the status set on the result
  object, the scanners that were constructed with \<open>new\<close>, and what was printed.
\<close>

record FindReferences_result =
  returned :: bool
  error_message :: "string option"
  status :: "ReturnStatus option"
  scanners :: "ObjectScanner list"
  printed_output :: "print_event list"

definition command_failed :: "string \<Rightarrow> ReturnStatus option \<Rightarrow> FindReferences_result" where
  "command_failed message st =
     \<lparr>returned = False, error_message = Some message, status = st, scanners = [], printed_output = []\<rparr>"

text \<open>
  The \<open>switch\<close> on the scan type: the scanner, or the failure the command returns
  with. For a search by value the expression is evaluated first, and a value that is
  a small integer is refused before a scanner is constructed.
\<close>

definition FindReferencesCmd_scanner ::
  "'e FindRefs_Env_scheme \<Rightarrow> ScanOptions \<Rightarrow> string list \<Rightarrow> FindReferences_result + ObjectScanner" where
  "FindReferencesCmd_scanner env options args =
     (case scan_type options of
        kFieldValue \<Rightarrow>
          (case EvaluateExpression env (concat args) of
             Inl sberror \<Rightarrow> Inl (command_failed sberror (Some eReturnStatusFailed))
           | Inr search_value \<Rightarrow>
               if Smi_Check env search_value
               then Inl (command_failed ''Search value is an SMI.'' (Some eReturnStatusFailed))
               else Inr (ReferenceScanner search_value))
      | kPropertyName \<Rightarrow>
          if tl args \<noteq> []
          then Inl (command_failed ''Extra search parameter or unquoted string specified.''
                      (Some eReturnStatusFailed))
          else Inr (PropertyScanner (hd args))
      | kStringValue \<Rightarrow>
          if tl args \<noteq> []
          then Inl (command_failed ''Extra search parameter or unquoted string specified.''
                      (Some eReturnStatusFailed))
          else Inr (StringScanner (hd args))
      | kBadOption \<Rightarrow> Inl (command_failed ''Invalid search type'' (Some eReturnStatusFailed)))"

text \<open>
  The rest of \<open>DoExecute\<close> once the scanner exists: the heap scan, the indexing for
  the scanner when its index is not loaded (and for a by-value scanner when the scan
  is recursive), and the printing, which starts with an empty
  \<open>already_visited_references\<close>. This is the result when the heap scan returns
  (\<open>ScanHeapForObjects_returns\<close>).
\<close>

definition FindReferencesCmd_scan_and_print ::
  "'e FindRefs_Env_scheme \<Rightarrow> SBTarget \<Rightarrow> ScanOptions \<Rightarrow> ObjectScanner \<Rightarrow> LLScan
   \<Rightarrow> FindReferences_result \<times> LLScan" where
  "FindReferencesCmd_scan_and_print env tgt options scanner s =
     (let r = ScanHeapForObjects env tgt s
      in if \<not> fst r
         then (\<lparr>returned = False, error_message = None, status = Some eReturnStatusFailed,
                scanners = [scanner], printed_output = []\<rparr>, snd r)
         else
           (let s1 = (if \<not> AreReferencesLoaded scanner (snd r)
                      then ScanForReferences env scanner (snd r) else snd r);
                ref_scanner = ReferenceScanner (Value_default_raw env);
                s2 = (if recursive_scan options \<and> \<not> AreReferencesLoaded ref_scanner s1
                      then ScanForReferences env ref_scanner s1 else s1);
                references = GetReferences scanner s2;
                st = PrintReferences env (fst references) scanner options 0
                       \<lparr>p_llscan = snd references, visited_references = [], printed = []\<rparr>
            in (\<lparr>returned = True, error_message = None, status = Some eReturnStatusSuccessFinishResult,
                 scanners = scanner # (if recursive_scan options then [ref_scanner] else []),
                 printed_output = printed st\<rparr>,
                p_llscan st)))"

text \<open>\<open>FindReferencesCmd::DoExecute\<close>.\<close>

definition FindReferencesCmd_DoExecute ::
  "'e FindRefs_Env_scheme \<Rightarrow> FindReferences_call \<Rightarrow> LLScan \<Rightarrow> FindReferences_result \<times> LLScan" where
  "FindReferencesCmd_DoExecute env c s =
     (if \<not> cmd_given c then (command_failed ''USAGE: v8 findrefs expr'' None, s)
      else if \<not> target_valid c
      then (command_failed ''No valid process, please start something'' None, s)
      else if start c = []
      then (command_failed ''Missing search parameter'' (Some eReturnStatusFailed), s)
      else case FindReferencesCmd_scanner env (ParseScanOptions (getopt_results c)) (start c) of
        Inl failure \<Rightarrow> (failure, s)
      | Inr scanner \<Rightarrow>
          FindReferencesCmd_scan_and_print env (selected_target c)
            (ParseScanOptions (getopt_results c)) scanner s)"

text \<open>
  A debugger in which the expression \<open>42\<close> evaluates to the value 42, a small
  integer, and the expression \<open>0x10\<close> to the object \<open>0x10\<close> of the two objects
  above.
\<close>

definition findrefs_env :: FindRefs_Env where
  "findrefs_env =
     Heap_Env.extend (cycle_env\<lparr>Smi_Check := (\<lambda>w. w = 42)\<rparr>)
       (FindRefs_Env.fields
          (\<lambda>e. if e = ''42'' then Inr 42 else if e = ''0x10'' then Inr 0x10
                else Inl ''error: use of undeclared identifier'')
          (- 1))"

definition smi_query :: FindReferences_call where
  "smi_query =
     \<lparr>cmd_given = True, target_valid = True, selected_target = 2,
      getopt_results = ''v'', start = [''42'']\<rparr>"

text \<open>The recursive by-value query \<open>findrefs -r -v 0x10\<close> on the same target.\<close>

definition cycle_query :: FindReferences_call where
  "cycle_query =
     \<lparr>cmd_given = True, target_valid = True, selected_target = 2,
      getopt_results = ''rv'', start = [''0x10'']\<rparr>"

section \<open>TypeRecord: idempotent insertion and the counter invariant\<close>

lemma AddInstance_present:
  "address \<in> instances t \<Longrightarrow> AddInstance address sz t = t"
  by (simp add: AddInstance_def Let_def insert_absorb)

lemma AddInstance_instances:
  "instances (AddInstance address sz t) = insert address (instances t)"
  by (simp add: AddInstance_def Let_def)

lemma AddInstance_twice:
  "AddInstance a s2 (AddInstance a s1 t) = AddInstance a s1 t"
  by (rule AddInstance_present) (simp add: AddInstance_instances)

lemma AddInstance_count_fresh:
  "a \<notin> instances t \<Longrightarrow> instance_count (AddInstance a s t) = instance_count t + 1"
  by (simp add: AddInstance_def Let_def)

lemma AddInstances_instances:
  "instances (AddInstances cs t) = instances t \<union> fst ` set cs"
  by (induction cs arbitrary: t) (auto simp: AddInstance_instances)

lemma AddInstances_count:
  "instance_count t = of_nat (card (instances t)) \<Longrightarrow>
   instance_count (AddInstances cs t) = of_nat (card (instances (AddInstances cs t)))"
proof (induction cs arbitrary: t)
  case Nil
  then show ?case by simp
next
  case (Cons c cs)
  have "instance_count (AddInstance (fst c) (snd c) t)
        = of_nat (card (instances (AddInstance (fst c) (snd c) t)))"
  proof (cases "fst c \<in> instances t")
    case True
    then show ?thesis using Cons.prems by (simp add: AddInstance_present)
  next
    case False
    then show ?thesis using Cons.prems
      by (simp add: AddInstance_def Let_def)
  qed
  from Cons.IH [OF this] show ?case by simp
qed

lemma AddInstances_total:
  "total_instance_size (AddInstances cs t)
   = total_instance_size t + sum_list (first_insertion_sizes (instances t) cs)"
proof (induction cs arbitrary: t)
  case Nil
  then show ?case by simp
next
  case (Cons c cs)
  show ?case
  proof (cases "fst c \<in> instances t")
    case True
    then show ?thesis using Cons.IH [of t] by (simp add: AddInstance_present)
  next
    case False
    then show ?thesis
      using Cons.IH [of "AddInstance (fst c) (snd c) t"]
      by (simp add: AddInstance_def Let_def add.assoc)
  qed
qed

lemma card_uint64_proper:
  fixes S :: "uint64_t set"
  assumes "S \<noteq> UNIV"
  shows "card S < 2 ^ 64"
proof -
  have "S \<subset> UNIV" using assms by auto
  then have "card S < card (UNIV :: uint64_t set)"
    by (intro psubset_card_mono) simp_all
  then show ?thesis by (simp add: card_word)
qed

text \<open>
  C1. A second \<open>AddInstance\<close> with the same address, whatever the size, changes
  nothing, so across the two calls of a new address the count goes up by exactly one.
  After any sequence of calls on a new record the instances are the addresses passed,
  \<open>instance_count\<close> is their number (as a 64-bit counter; read as a number it is the
  cardinality unless all \<open>2^64\<close> addresses are present) and
  \<open>total_instance_size\<close> is the 64-bit sum of the sizes passed at first insertions.
\<close>

theorem AddInstance_idempotent_invariant:
  "AddInstance a s2 (AddInstance a s1 t) = AddInstance a s1 t
   \<and> (a \<notin> instances t \<longrightarrow>
        instance_count (AddInstance a s2 (AddInstance a s1 t)) = instance_count t + 1
        \<and> total_instance_size (AddInstance a s2 (AddInstance a s1 t)) = total_instance_size t + s1)
   \<and> instances (AddInstances cs (TypeRecord_new name)) = fst ` set cs
   \<and> instance_count (AddInstances cs (TypeRecord_new name))
       = of_nat (card (instances (AddInstances cs (TypeRecord_new name))))
   \<and> (instances (AddInstances cs (TypeRecord_new name)) \<noteq> UNIV \<longrightarrow>
        unat (instance_count (AddInstances cs (TypeRecord_new name)))
        = card (instances (AddInstances cs (TypeRecord_new name))))
   \<and> total_instance_size (AddInstances cs (TypeRecord_new name))
       = sum_list (first_insertion_sizes {} cs)"
proof -
  let ?t = "AddInstances cs (TypeRecord_new name)"
  have cnt: "instance_count ?t = of_nat (card (instances ?t))"
    by (rule AddInstances_count) (simp add: TypeRecord_new_def)
  have un: "unat (instance_count ?t) = card (instances ?t)" if "instances ?t \<noteq> UNIV"
  proof -
    have "card (instances ?t) < 2 ^ 64" using that by (rule card_uint64_proper)
    then show ?thesis by (simp add: cnt unat_of_nat)
  qed
  have tot: "total_instance_size ?t = sum_list (first_insertion_sizes {} cs)"
    using AddInstances_total [of cs "TypeRecord_new name"] by (simp add: TypeRecord_new_def)
  have ins: "instances ?t = fst ` set cs"
    by (simp add: AddInstances_instances TypeRecord_new_def)
  have fresh: "total_instance_size (AddInstance a s1 t) = total_instance_size t + s1"
    if "a \<notin> instances t"
    using that by (simp add: AddInstance_def Let_def)
  show ?thesis
    using cnt un tot ins fresh
    by (simp add: AddInstance_twice AddInstance_count_fresh)
qed

theorem AddInstance_idempotent_invariant_witness:
  "(16::uint64_t) \<notin> instances (TypeRecord_new ''Object'')
   \<and> instance_count (AddInstance 16 99 (AddInstance 16 24 (TypeRecord_new ''Object''))) = 1
   \<and> total_instance_size (AddInstance 16 99 (AddInstance 16 24 (TypeRecord_new ''Object''))) = 24
   \<and> instances (AddInstances [(16, 24), (32, 8), (16, 99)] (TypeRecord_new ''Object'')) \<noteq> UNIV
   \<and> unat (instance_count (AddInstances [(16, 24), (32, 8), (16, 99)] (TypeRecord_new ''Object''))) = 2
   \<and> total_instance_size (AddInstances [(16, 24), (32, 8), (16, 99)] (TypeRecord_new ''Object'')) = 32"
proof -
  have b: "instances (AddInstances [(16, 24), (32, 8), (16, 99)] (TypeRecord_new ''Object'')) \<noteq> UNIV"
  proof -
    have "(48::uint64_t) \<notin> instances (AddInstances [(16, 24), (32, 8), (16, 99)] (TypeRecord_new ''Object''))"
      by (simp add: TypeRecord_new_def AddInstance_def Let_def)
    then show ?thesis by (metis UNIV_I)
  qed
  show ?thesis
    using b
      AddInstance_idempotent_invariant
        [of 16 99 24 "TypeRecord_new ''Object''" "[(16, 24), (32, 8), (16, 99)]" "''Object''"]
    by (simp add: TypeRecord_new_def AddInstance_def Let_def)
qed

section \<open>Recursive reference expansion\<close>

lemmas print_induct =
  PrintReferences_PrintReferences_loop_PrintRecursiveReferences_PrintContextRefs_PrintContextRefs_contexts_PrintContextRefs_locals.induct

text \<open>The visited vector only grows at its end, through all six functions.\<close>

lemma visited_prefix:
  "prefix (visited_references st)
     (visited_references (PrintReferences env references scanner options level st))"
  "prefix (visited_references st)
     (visited_references (PrintReferences_loop env references scanner options level st))"
  "prefix (visited_references st)
     (visited_references (PrintRecursiveReferences env options address level st))"
  "prefix (visited_references st)
     (visited_references (PrintContextRefs env scanner options level st))"
  "prefix (visited_references st)
     (visited_references (PrintContextRefs_contexts env search_value options level ctxs st))"
  "prefix (visited_references st)
     (visited_references (PrintContextRefs_locals env search_value options level ctx locals st))"
proof (induct env references scanner options level st
    and env references scanner options level st
    and env options address level st
    and env scanner options level st
    and env search_value options level ctxs st
    and env search_value options level ctx locals st
    rule: print_induct)
  case (1 env references scanner options level st)
  then show ?case using prefix_order.trans by auto
next
  case (2 env scanner options level st)
  then show ?case by simp
next
  case (3 env addr rest scanner options level st)
  then show ?case by (auto simp add: emit_def split: if_splits intro: prefix_order.trans)
next
  case (4 env options address level st)
  then show ?case by (auto simp add: emit_def split: if_splits dest: append_prefixD)
next
  case (5 env search_value options level st)
  then show ?case by simp
next
  case (6 env search_value options level st)
  then show ?case by simp
next
  case (7 env search_value options level st)
  then show ?case by simp
next
  case (8 env search_value options level st)
  then show ?case by simp
next
  case (9 env search_value options level ctx rest st)
  then show ?case by (auto split: option.splits intro: prefix_order.trans)
next
  case (10 env search_value options level ctx st)
  then show ?case by simp
next
  case (11 env search_value options level ctx l rest st)
  then show ?case by (auto simp add: emit_def split: if_splits intro: prefix_order.trans)
qed

text \<open>A visited vector without repetitions stays without repetitions.\<close>

lemma visited_distinct:
  "distinct (visited_references st) \<longrightarrow>
     distinct (visited_references (PrintReferences env references scanner options level st))"
  "distinct (visited_references st) \<longrightarrow>
     distinct (visited_references (PrintReferences_loop env references scanner options level st))"
  "distinct (visited_references st) \<longrightarrow>
     distinct (visited_references (PrintRecursiveReferences env options address level st))"
  "distinct (visited_references st) \<longrightarrow>
     distinct (visited_references (PrintContextRefs env scanner options level st))"
  "distinct (visited_references st) \<longrightarrow>
     distinct (visited_references (PrintContextRefs_contexts env search_value options level ctxs st))"
  "distinct (visited_references st) \<longrightarrow>
     distinct (visited_references (PrintContextRefs_locals env search_value options level ctx locals st))"
proof (induct env references scanner options level st
    and env references scanner options level st
    and env options address level st
    and env scanner options level st
    and env search_value options level ctxs st
    and env search_value options level ctx locals st
    rule: print_induct)
  case (1 env references scanner options level st)
  then show ?case by auto
next
  case (2 env scanner options level st)
  then show ?case by simp
next
  case (3 env addr rest scanner options level st)
  then show ?case by (auto simp add: emit_def split: if_splits)
next
  case (4 env options address level st)
  then show ?case by (auto simp add: emit_def split: if_splits)
next
  case (5 env search_value options level st)
  then show ?case by simp
next
  case (6 env search_value options level st)
  then show ?case by simp
next
  case (7 env search_value options level st)
  then show ?case by simp
next
  case (8 env search_value options level st)
  then show ?case by simp
next
  case (9 env search_value options level ctx rest st)
  then show ?case by (auto split: option.splits)
next
  case (10 env search_value options level ctx st)
  then show ?case by simp
next
  case (11 env search_value options level ctx l rest st)
  then show ?case by (auto simp add: emit_def split: if_splits)
qed

lemma PrintRecursiveReferences_new:
  assumes "address \<notin> set (visited_references st)"
  shows "prefix (visited_references st @ [address])
           (visited_references (PrintRecursiveReferences env options address level st))"
proof -
  have "prefix (visited_references
                  ((emit (Branch level) st)
                     \<lparr>visited_references := visited_references st @ [address],
                      p_llscan := snd (GetReferences (ReferenceScanner address) (p_llscan st))\<rparr>))
          (visited_references
             (PrintReferences env
                (fst (GetReferences (ReferenceScanner address) (p_llscan st)))
                (ReferenceScanner address) options (level + 1)
                ((emit (Branch level) st)
                   \<lparr>visited_references := visited_references st @ [address],
                    p_llscan := snd (GetReferences (ReferenceScanner address) (p_llscan st))\<rparr>)))"
    by (rule visited_prefix(1))
  then show ?thesis using assms by simp
qed

text \<open>
  The expansions that the output shows are the addresses appended to the vector, in
  the same order, through all six functions. \<open>PrintRecursiveReferences\<close> is
  called after the line of its address was printed.
\<close>

lemma read_emit: "read_output (printed (emit e st)) = read_event (read_output (printed st)) e"
  by (simp add: emit_def read_output_def)

lemma expanded_emit:
  "expanded_addresses (printed (emit (PrintRefs_JSObject scanner addr level) st))
   = expanded_addresses (printed st)"
  "expanded_addresses (printed (emit (PrintRefs_String scanner addr level) st))
   = expanded_addresses (printed st)"
  "expanded_addresses (printed (emit (ContextLine ctx v) st)) = expanded_addresses (printed st)"
  "expanded_addresses (printed (emit SeenAbove (emit (Branch level) st)))
   = expanded_addresses (printed st)"
  "last_named (read_output (printed st)) = Some a \<Longrightarrow>
   expanded_addresses (printed (emit (Branch level) st)) = expanded_addresses (printed st) @ [a]"
  by (simp_all add: expanded_addresses_def read_emit)

lemma named_emit:
  "last_named (read_output (printed (emit (PrintRefs_JSObject scanner addr level) st))) = Some addr"
  "last_named (read_output (printed (emit (PrintRefs_String scanner addr level) st))) = Some addr"
  "last_named (read_output (printed (emit (ContextLine ctx v) st))) = Some ctx"
  by (simp_all add: read_emit)

lemma printed_emit_update [simp]:
  "printed (emit e st\<lparr>visited_references := v, p_llscan := l\<rparr>) = printed (emit e st)"
  by (simp add: emit_def)

lemma visited_emit [simp]: "visited_references (emit e st) = visited_references st"
  by (simp add: emit_def)

lemma expansions_chain:
  assumes "e2 = e1 @ drop (length v1) v2" "e3 = e2 @ drop (length v2) v3"
    "prefix v1 v2" "prefix v2 v3"
  shows "e3 = e1 @ drop (length v1) (v3 :: 'a list)"
  using assms by (auto simp add: prefix_def)

lemma expansions_are_visited:
  "expanded_addresses (printed (PrintReferences env references scanner options level st))
   = expanded_addresses (printed st)
     @ drop (length (visited_references st))
         (visited_references (PrintReferences env references scanner options level st))"
  "expanded_addresses (printed (PrintReferences_loop env references scanner options level st))
   = expanded_addresses (printed st)
     @ drop (length (visited_references st))
         (visited_references (PrintReferences_loop env references scanner options level st))"
  "last_named (read_output (printed st)) = Some address \<longrightarrow>
   expanded_addresses (printed (PrintRecursiveReferences env options address level st))
   = expanded_addresses (printed st)
     @ drop (length (visited_references st))
         (visited_references (PrintRecursiveReferences env options address level st))"
  "expanded_addresses (printed (PrintContextRefs env scanner options level st))
   = expanded_addresses (printed st)
     @ drop (length (visited_references st))
         (visited_references (PrintContextRefs env scanner options level st))"
  "expanded_addresses (printed (PrintContextRefs_contexts env search_value options level ctxs st))
   = expanded_addresses (printed st)
     @ drop (length (visited_references st))
         (visited_references (PrintContextRefs_contexts env search_value options level ctxs st))"
  "expanded_addresses (printed (PrintContextRefs_locals env search_value options level ctx locals st))
   = expanded_addresses (printed st)
     @ drop (length (visited_references st))
         (visited_references (PrintContextRefs_locals env search_value options level ctx locals st))"
proof (induct env references scanner options level st
    and env references scanner options level st
    and env options address level st
    and env scanner options level st
    and env search_value options level ctxs st
    and env search_value options level ctx locals st
    rule: print_induct)
  case (1 env references scanner options level st)
  let ?m = "PrintReferences_loop env references scanner options level st"
  have "expanded_addresses (printed (PrintContextRefs env scanner options level ?m))
      = expanded_addresses (printed st)
        @ drop (length (visited_references st))
            (visited_references (PrintContextRefs env scanner options level ?m))"
    using 1(1) 1(2) by (rule expansions_chain) (rule visited_prefix)+
  then show ?case by simp
next
  case (2 env scanner options level st)
  then show ?case by simp
next
  case (3 env addr rest scanner options level st)
  let ?obj = "IsObjectType env (value_of (GetType env addr))
              \<or> value_of (GetType env addr) = kJSArrayType env"
  let ?str = "value_of (GetType env addr) < kFirstNonstringType env"
  show ?case
  proof (cases "recursive_scan options")
    case False
    with 3(2) 3(4) 3(5) show ?thesis by (simp add: expanded_emit)
  next
    case r: True
    show ?thesis
    proof (cases ?obj)
      case True
      let ?s1 = "emit (PrintRefs_JSObject scanner addr level) st"
      let ?s2 = "PrintRecursiveReferences env options addr level ?s1"
      let ?s3 = "PrintReferences_loop env rest scanner options level ?s2"
      have a: "expanded_addresses (printed ?s2)
          = expanded_addresses (printed ?s1)
            @ drop (length (visited_references ?s1)) (visited_references ?s2)"
        using 3(1) [OF True r] by (simp add: named_emit)
      have b: "expanded_addresses (printed ?s3)
          = expanded_addresses (printed ?s2)
            @ drop (length (visited_references ?s2)) (visited_references ?s3)"
        using 3(2) [OF True] r by simp
      have "expanded_addresses (printed ?s3)
          = expanded_addresses (printed ?s1)
            @ drop (length (visited_references ?s1)) (visited_references ?s3)"
        using a b by (rule expansions_chain) (rule visited_prefix)+
      with True r show ?thesis by (simp add: expanded_emit)
    next
      case False
      show ?thesis
      proof (cases ?str)
        case True
        let ?s1 = "emit (PrintRefs_String scanner addr level) st"
        let ?s2 = "PrintRecursiveReferences env options addr level ?s1"
        let ?s3 = "PrintReferences_loop env rest scanner options level ?s2"
        have a: "expanded_addresses (printed ?s2)
            = expanded_addresses (printed ?s1)
              @ drop (length (visited_references ?s1)) (visited_references ?s2)"
          using 3(3) [OF False True r] by (simp add: named_emit)
        have b: "expanded_addresses (printed ?s3)
            = expanded_addresses (printed ?s2)
              @ drop (length (visited_references ?s2)) (visited_references ?s3)"
          using 3(4) [OF False True] r by simp
        have "expanded_addresses (printed ?s3)
            = expanded_addresses (printed ?s1)
              @ drop (length (visited_references ?s1)) (visited_references ?s3)"
          using a b by (rule expansions_chain) (rule visited_prefix)+
        with False True r show ?thesis by (simp add: expanded_emit)
      next
        case s: False
        with False 3(5) show ?thesis by simp
      qed
    qed
  qed
next
  case (4 env options address level st)
  show ?case
  proof (intro impI)
    assume n: "last_named (read_output (printed st)) = Some address"
    show "expanded_addresses (printed (PrintRecursiveReferences env options address level st))
        = expanded_addresses (printed st)
          @ drop (length (visited_references st))
              (visited_references (PrintRecursiveReferences env options address level st))"
    proof (cases "address \<in> set (visited_references st)")
      case True
      then show ?thesis by (simp add: expanded_emit)
    next
      case False
      let ?s1 = "(emit (Branch level) st)
                   \<lparr>visited_references := visited_references st @ [address],
                    p_llscan := snd (GetReferences (ReferenceScanner address) (p_llscan st))\<rparr>"
      let ?s2 = "PrintReferences env
                   (fst (GetReferences (ReferenceScanner address) (p_llscan st)))
                   (ReferenceScanner address) options (level + 1) ?s1"
      have a: "expanded_addresses (printed ?s2)
          = expanded_addresses (printed ?s1)
            @ drop (length (visited_references ?s1)) (visited_references ?s2)"
        by (rule 4 [OF False])
      have "prefix (visited_references ?s1) (visited_references ?s2)"
        by (rule visited_prefix)
      then obtain zs where z: "visited_references ?s2 = visited_references st @ [address] @ zs"
        by (auto simp add: prefix_def)
      have "expanded_addresses (printed ?s1) = expanded_addresses (printed st) @ [address]"
        using n by (simp add: expanded_emit)
      with a z have "expanded_addresses (printed ?s2)
          = expanded_addresses (printed st)
            @ drop (length (visited_references st)) (visited_references ?s2)"
        by simp
      with False show ?thesis by simp
    qed
  qed
next
  case (5 env search_value options level st)
  then show ?case by simp
next
  case (6 env search_value options level st)
  then show ?case by simp
next
  case (7 env search_value options level st)
  then show ?case by simp
next
  case (8 env search_value options level st)
  then show ?case by simp
next
  case (9 env search_value options level ctx rest st)
  show ?case
  proof (cases "Locals env ctx")
    case None
    with 9(1) show ?thesis by simp
  next
    case (Some locals)
    let ?s1 = "PrintContextRefs_locals env search_value options level ctx locals st"
    let ?s2 = "PrintContextRefs_contexts env search_value options level rest ?s1"
    have "expanded_addresses (printed ?s2)
        = expanded_addresses (printed st)
          @ drop (length (visited_references st)) (visited_references ?s2)"
      using 9(2) [OF Some] 9(3) [OF Some] by (rule expansions_chain) (rule visited_prefix)+
    with Some show ?thesis by simp
  qed
next
  case (10 env search_value options level ctx st)
  then show ?case by simp
next
  case (11 env search_value options level ctx l rest st)
  show ?case
  proof (cases "l = search_value")
    case False
    with 11(3) show ?thesis by simp
  next
    case True
    show ?thesis
    proof (cases "recursive_scan options")
      case False
      with True 11(2) show ?thesis by (simp add: expanded_emit)
    next
      case r: True
      let ?s1 = "emit (ContextLine ctx search_value) st"
      let ?s2 = "PrintRecursiveReferences env options ctx level ?s1"
      let ?s3 = "PrintContextRefs_locals env search_value options level ctx rest ?s2"
      have a: "expanded_addresses (printed ?s2)
          = expanded_addresses (printed ?s1)
            @ drop (length (visited_references ?s1)) (visited_references ?s2)"
        using 11(1) [OF True r] by (simp add: named_emit)
      have b: "expanded_addresses (printed ?s3)
          = expanded_addresses (printed ?s2)
            @ drop (length (visited_references ?s2)) (visited_references ?s3)"
        using 11(2) [OF True] r by simp
      have "expanded_addresses (printed ?s3)
          = expanded_addresses (printed ?s1)
            @ drop (length (visited_references ?s1)) (visited_references ?s3)"
        using a b by (rule expansions_chain) (rule visited_prefix)+
      with True r show ?thesis by (simp add: expanded_emit)
    qed
  qed
qed

lemma cycle_run:
  assumes "GetType env 0x10 = (True, 200)" "GetType env 0x20 = (True, 200)"
    "IsObjectType env 200" "unordered_set_order env {0x18} = [0x18]"
    "Locals env 0x18 = Some [0x10]"
  shows "PrintReferences env [0x20] (ReferenceScanner 0x10)
     \<lparr>scan_type = kFieldValue, recursive_scan = True\<rparr> 0
     \<lparr>p_llscan = cycle_session, visited_references = [], printed = []\<rparr>
   = \<lparr>p_llscan = cycle_session
        \<lparr>references_by_value := [0x10 \<mapsto> [0x20], 0x20 \<mapsto> [0x10], 0x18 \<mapsto> []]\<rparr>,
      visited_references = [0x20, 0x10, 0x18],
      printed =
        [PrintRefs_JSObject (ReferenceScanner 0x10) 0x20 0, Branch 0,
         PrintRefs_JSObject (ReferenceScanner 0x20) 0x10 1, Branch 1,
         PrintRefs_JSObject (ReferenceScanner 0x10) 0x20 2, Branch 2, SeenAbove,
         ContextLine 0x18 0x10, Branch 2,
         ContextLine 0x18 0x10, Branch 0, SeenAbove]\<rparr>"
  using assms
  by (simp add: cycle_session_def emit_def GetReferencesByValue_def LLScan_new_def)

lemma cycle_env_eval:
  "GetType cycle_env 0x10 = (True, 200)" "GetType cycle_env 0x20 = (True, 200)"
  "IsObjectType cycle_env 200" "unordered_set_order cycle_env {0x18} = [0x18]"
  "Locals cycle_env 0x18 = Some [0x10]"
  by (simp_all add: cycle_env_def nothing_env_def)

lemma findrefs_env_eval:
  "GetType findrefs_env 0x10 = (True, 200)" "GetType findrefs_env 0x20 = (True, 200)"
  "IsObjectType findrefs_env 200" "unordered_set_order findrefs_env {0x18} = [0x18]"
  "Locals findrefs_env 0x18 = Some [0x10]"
  by (simp_all add: findrefs_env_def Heap_Env.defs FindRefs_Env.defs cycle_env_def nothing_env_def)

lemma findrefs_env_query:
  "GetMemoryRegions findrefs_env = []"
  "EvaluateExpression findrefs_env ''0x10'' = Inr 0x10" "\<not> Smi_Check findrefs_env 0x10"
  "Value_default_raw findrefs_env = - 1"
  by (simp_all add: findrefs_env_def Heap_Env.defs FindRefs_Env.defs cycle_env_def nothing_env_def)

lemma cycle_scan: "ScanHeapForObjects findrefs_env 2 cycle_session = (True, cycle_session)"
  by (simp add: ScanHeapForObjects_def ScanMemoryRegions_def findrefs_env_query
      cycle_session_def LLScan_new_def)

lemma cycle_loaded:
  "AreReferencesLoaded (ReferenceScanner v) cycle_session"
  "GetReferences (ReferenceScanner 0x10) cycle_session = ([0x20], cycle_session)"
  by (simp_all add: AreReferencesByValueLoaded_def GetReferencesByValue_def cycle_session_def
      LLScan_new_def)

lemma cycle_scanner:
  "ParseScanOptions ''rv'' = \<lparr>scan_type = kFieldValue, recursive_scan = True\<rparr>"
  "FindReferencesCmd_scanner findrefs_env \<lparr>scan_type = kFieldValue, recursive_scan = True\<rparr>
     [''0x10'']
   = Inr (ReferenceScanner 0x10)"
  by (simp_all add: FindReferencesCmd_scanner_def ParseScanOptions_def ScanOptions_new_def
      findrefs_env_query)

lemma cycle_DoExecute:
  "FindReferencesCmd_DoExecute findrefs_env cycle_query cycle_session
   = (\<lparr>returned = True, error_message = None, status = Some eReturnStatusSuccessFinishResult,
       scanners = [ReferenceScanner 0x10, ReferenceScanner (- 1)],
       printed_output =
        [PrintRefs_JSObject (ReferenceScanner 0x10) 0x20 0, Branch 0,
         PrintRefs_JSObject (ReferenceScanner 0x20) 0x10 1, Branch 1,
         PrintRefs_JSObject (ReferenceScanner 0x10) 0x20 2, Branch 2, SeenAbove,
         ContextLine 0x18 0x10, Branch 2,
         ContextLine 0x18 0x10, Branch 0, SeenAbove]\<rparr>,
      cycle_session
        \<lparr>references_by_value := [0x10 \<mapsto> [0x20], 0x20 \<mapsto> [0x10], 0x18 \<mapsto> []]\<rparr>)"
proof -
  have "FindReferencesCmd_DoExecute findrefs_env cycle_query cycle_session
      = FindReferencesCmd_scan_and_print findrefs_env 2
          \<lparr>scan_type = kFieldValue, recursive_scan = True\<rparr> (ReferenceScanner 0x10) cycle_session"
    by (simp add: FindReferencesCmd_DoExecute_def cycle_query_def cycle_scanner)
  then show ?thesis
    by (simp add: FindReferencesCmd_scan_and_print_def cycle_scan cycle_loaded
        findrefs_env_query cycle_run [OF findrefs_env_eval]
        del: PrintReferences.simps GetReferences.simps AreReferencesLoaded.simps)
qed

lemma diamond_run:
  "PrintReferences diamond_env [0x20, 0x28] (ReferenceScanner 0x10)
     \<lparr>scan_type = kFieldValue, recursive_scan = True\<rparr> 0
     \<lparr>p_llscan = diamond_session, visited_references = [], printed = []\<rparr>
   = \<lparr>p_llscan = diamond_session
        \<lparr>references_by_value :=
           [0x10 \<mapsto> [0x20, 0x28], 0x20 \<mapsto> [0x30], 0x28 \<mapsto> [0x30], 0x30 \<mapsto> []]\<rparr>,
      visited_references = [0x20, 0x30, 0x28],
      printed =
        [PrintRefs_JSObject (ReferenceScanner 0x10) 0x20 0, Branch 0,
         PrintRefs_JSObject (ReferenceScanner 0x20) 0x30 1, Branch 1,
         PrintRefs_JSObject (ReferenceScanner 0x10) 0x28 0, Branch 0,
         PrintRefs_JSObject (ReferenceScanner 0x28) 0x30 1, Branch 1, SeenAbove]\<rparr>"
  by (simp add: diamond_env_def diamond_session_def nothing_env_def emit_def
      GetReferencesByValue_def LLScan_new_def)

text \<open>
  C2. Every call of \<open>PrintReferences\<close> and of \<open>PrintRecursiveReferences\<close>
  terminates, whatever the reference index and the contexts hold (cycles included):
  its arguments are in the accessible part of the call relation of the six functions.
  There is one visited vector for the whole traversal: the addresses that
  \<open>PrintRecursiveReferences\<close> expanded anywhere in a traversal, read off its output
  in order, are exactly the vector that the traversal leaves (it starts empty, and the
  value the query asks for is not put in it), and the vector holds no address twice;
  so no address is expanded twice. From any state the new expansions are the
  addresses appended to the vector, which only grows at its end and stays free of
  repetitions. On an address that is in the vector \<open>PrintRecursiveReferences\<close>
  prints the branch mark and \<open>[seen above]\<close> and does nothing else; a new address
  is appended to the vector and is the next expansion in the output.
\<close>

theorem PrintReferences_terminates_expands_once:
  "PrintReferences_PrintReferences_loop_PrintRecursiveReferences_PrintContextRefs_PrintContextRefs_contexts_PrintContextRefs_locals_dom
     (Inl (Inl (env, references, scanner, options, level, st)))
   \<and> PrintReferences_PrintReferences_loop_PrintRecursiveReferences_PrintContextRefs_PrintContextRefs_contexts_PrintContextRefs_locals_dom
     (Inl (Inr (Inr (env, options, address, level, st))))
   \<and> expanded_addresses (printed (PrintReferences env references scanner options level
         \<lparr>p_llscan = s, visited_references = [], printed = []\<rparr>))
       = visited_references (PrintReferences env references scanner options level
           \<lparr>p_llscan = s, visited_references = [], printed = []\<rparr>)
   \<and> distinct (expanded_addresses (printed (PrintReferences env references scanner options level
         \<lparr>p_llscan = s, visited_references = [], printed = []\<rparr>)))
   \<and> expanded_addresses (printed (PrintReferences env references scanner options level st))
       = expanded_addresses (printed st)
         @ drop (length (visited_references st))
             (visited_references (PrintReferences env references scanner options level st))
   \<and> prefix (visited_references st)
        (visited_references (PrintReferences env references scanner options level st))
   \<and> (distinct (visited_references st) \<longrightarrow>
        distinct (visited_references (PrintReferences env references scanner options level st)))
   \<and> (address \<in> set (visited_references st) \<longrightarrow>
        PrintRecursiveReferences env options address level st
        = emit SeenAbove (emit (Branch level) st))
   \<and> (address \<notin> set (visited_references st) \<longrightarrow>
        prefix (visited_references st @ [address])
          (visited_references (PrintRecursiveReferences env options address level st))
        \<and> (last_named (read_output (printed st)) = Some address \<longrightarrow>
             prefix (expanded_addresses (printed st) @ [address])
               (expanded_addresses
                  (printed (PrintRecursiveReferences env options address level st)))))"
proof -
  let ?st0 = "\<lparr>p_llscan = s, visited_references = [], printed = []\<rparr>"
  have dom1: "PrintReferences_PrintReferences_loop_PrintRecursiveReferences_PrintContextRefs_PrintContextRefs_contexts_PrintContextRefs_locals_dom
     (Inl (Inl (env, references, scanner, options, level, st)))"
    using Print_functions_terminate by (rule allE)
  have dom2: "PrintReferences_PrintReferences_loop_PrintRecursiveReferences_PrintContextRefs_PrintContextRefs_contexts_PrintContextRefs_locals_dom
     (Inl (Inr (Inr (env, options, address, level, st))))"
    using Print_functions_terminate by (rule allE)
  have "expanded_addresses (printed (PrintReferences env references scanner options level ?st0))
       = expanded_addresses (printed ?st0)
         @ drop (length (visited_references ?st0))
             (visited_references (PrintReferences env references scanner options level ?st0))"
    by (rule expansions_are_visited(1))
  then have e0: "expanded_addresses
        (printed (PrintReferences env references scanner options level ?st0))
       = visited_references (PrintReferences env references scanner options level ?st0)"
    by (simp add: expanded_addresses_def read_output_def del: PrintReferences.simps)
  have "distinct (visited_references ?st0) \<longrightarrow>
        distinct (visited_references (PrintReferences env references scanner options level ?st0))"
    by (rule visited_distinct(1))
  then have d0: "distinct (expanded_addresses
        (printed (PrintReferences env references scanner options level ?st0)))"
    by (simp add: e0 del: PrintReferences.simps)
  have e1: "expanded_addresses (printed (PrintReferences env references scanner options level st))
       = expanded_addresses (printed st)
         @ drop (length (visited_references st))
             (visited_references (PrintReferences env references scanner options level st))"
    by (rule expansions_are_visited(1))
  have p1: "prefix (visited_references st)
        (visited_references (PrintReferences env references scanner options level st))"
    by (rule visited_prefix(1))
  have d1: "distinct (visited_references st) \<longrightarrow>
        distinct (visited_references (PrintReferences env references scanner options level st))"
    by (rule visited_distinct(1))
  have seen: "address \<in> set (visited_references st) \<longrightarrow>
        PrintRecursiveReferences env options address level st
        = emit SeenAbove (emit (Branch level) st)"
    by simp
  have new1: "address \<notin> set (visited_references st) \<longrightarrow>
        prefix (visited_references st @ [address])
          (visited_references (PrintRecursiveReferences env options address level st))"
    using PrintRecursiveReferences_new by blast
  have new2: "prefix (expanded_addresses (printed st) @ [address])
               (expanded_addresses
                  (printed (PrintRecursiveReferences env options address level st)))"
    if n: "address \<notin> set (visited_references st)"
      and l: "last_named (read_output (printed st)) = Some address"
  proof -
    let ?r = "PrintRecursiveReferences env options address level st"
    have "prefix (visited_references st @ [address]) (visited_references ?r)"
      using new1 n by blast
    then obtain zs where "visited_references ?r = visited_references st @ [address] @ zs"
      by (auto simp add: prefix_def)
    moreover have "expanded_addresses (printed ?r)
        = expanded_addresses (printed st)
          @ drop (length (visited_references st)) (visited_references ?r)"
      using expansions_are_visited(3) l by blast
    ultimately have "expanded_addresses (printed ?r)
        = (expanded_addresses (printed st) @ [address]) @ zs"
      by simp
    then show ?thesis by (simp only: prefixI)
  qed
  from dom1 dom2 e0 d0 e1 p1 d1 seen new1 new2 show ?thesis by blast
qed

theorem PrintReferences_terminates_expands_once_witness:
  "expanded_addresses
      (printed (PrintReferences diamond_env [0x20, 0x28] (ReferenceScanner 0x10)
         \<lparr>scan_type = kFieldValue, recursive_scan = True\<rparr> 0
         \<lparr>p_llscan = diamond_session, visited_references = [], printed = []\<rparr>))
     = [0x20, 0x30, 0x28]
   \<and> visited_references
       (PrintReferences diamond_env [0x20, 0x28] (ReferenceScanner 0x10)
          \<lparr>scan_type = kFieldValue, recursive_scan = True\<rparr> 0
          \<lparr>p_llscan = diamond_session, visited_references = [], printed = []\<rparr>)
     = [0x20, 0x30, 0x28]
   \<and> distinct (visited_references
        \<lparr>p_llscan = cycle_session, visited_references = [0x20, 0x10],
          printed = [ContextLine 0x18 0x10]\<rparr>)
   \<and> distinct (visited_references
        (PrintReferences cycle_env [] (ReferenceScanner 0x10)
           \<lparr>scan_type = kFieldValue, recursive_scan = True\<rparr> 2
           \<lparr>p_llscan = cycle_session, visited_references = [0x20, 0x10],
             printed = [ContextLine 0x18 0x10]\<rparr>))
   \<and> 0x20 \<in> set (visited_references
        \<lparr>p_llscan = cycle_session, visited_references = [0x20, 0x10],
          printed = [ContextLine 0x18 0x10]\<rparr>)
   \<and> PrintRecursiveReferences cycle_env \<lparr>scan_type = kFieldValue, recursive_scan = True\<rparr>
        0x20 2
        \<lparr>p_llscan = cycle_session, visited_references = [0x20, 0x10],
          printed = [ContextLine 0x18 0x10]\<rparr>
     = \<lparr>p_llscan = cycle_session, visited_references = [0x20, 0x10],
        printed = [ContextLine 0x18 0x10, Branch 2, SeenAbove]\<rparr>
   \<and> 0x18 \<notin> set (visited_references
        \<lparr>p_llscan = cycle_session, visited_references = [0x20, 0x10],
          printed = [ContextLine 0x18 0x10]\<rparr>)
   \<and> last_named (read_output (printed
        \<lparr>p_llscan = cycle_session, visited_references = [0x20, 0x10],
          printed = [ContextLine 0x18 0x10]\<rparr>)) = Some 0x18
   \<and> prefix [0x20, 0x10, 0x18]
       (visited_references
          (PrintRecursiveReferences cycle_env \<lparr>scan_type = kFieldValue, recursive_scan = True\<rparr>
             0x18 2
             \<lparr>p_llscan = cycle_session, visited_references = [0x20, 0x10],
               printed = [ContextLine 0x18 0x10]\<rparr>))
   \<and> prefix [0x18]
       (expanded_addresses (printed
          (PrintRecursiveReferences cycle_env \<lparr>scan_type = kFieldValue, recursive_scan = True\<rparr>
             0x18 2
             \<lparr>p_llscan = cycle_session, visited_references = [0x20, 0x10],
               printed = [ContextLine 0x18 0x10]\<rparr>)))"
proof -
  let ?o = "\<lparr>scan_type = kFieldValue, recursive_scan = True\<rparr>"
  let ?st = "\<lparr>p_llscan = cycle_session, visited_references = [0x20, 0x10],
              printed = [ContextLine 0x18 0x10]\<rparr>"
  note diamond = PrintReferences_terminates_expands_once
        [where env = diamond_env and references = "[0x20, 0x28]"
           and scanner = "ReferenceScanner 0x10" and options = ?o and level = 0
           and s = diamond_session and st = ?st and address = "0x20"]
  note seen = PrintReferences_terminates_expands_once
        [where env = cycle_env and references = "[]" and scanner = "ReferenceScanner 0x10"
           and options = ?o and level = 2 and s = cycle_session and st = ?st
           and address = "0x20"]
  note new = PrintReferences_terminates_expands_once
        [where env = cycle_env and references = "[]" and scanner = "ReferenceScanner 0x10"
           and options = ?o and level = 2 and s = cycle_session and st = ?st
           and address = "0x18"]
  have m0: "distinct (visited_references ?st)" by simp
  have m1: "0x20 \<in> set (visited_references ?st)" by simp
  have m2: "0x18 \<notin> set (visited_references ?st)" by simp
  have m3: "last_named (read_output (printed ?st)) = Some 0x18"
    by (simp add: read_output_def)
  have m4: "expanded_addresses (printed ?st) = []"
    by (simp add: expanded_addresses_def read_output_def)
  have v: "visited_references
       (PrintReferences diamond_env [0x20, 0x28] (ReferenceScanner 0x10) ?o 0
          \<lparr>p_llscan = diamond_session, visited_references = [], printed = []\<rparr>)
     = [0x20, 0x30, 0x28]"
    by (simp only: diamond_run Print_state.simps)
  from diamond v have e: "expanded_addresses
      (printed (PrintReferences diamond_env [0x20, 0x28] (ReferenceScanner 0x10) ?o 0
         \<lparr>p_llscan = diamond_session, visited_references = [], printed = []\<rparr>))
     = [0x20, 0x30, 0x28]"
    by (simp only:)
  from seen m0 have r0: "distinct (visited_references
        (PrintReferences cycle_env [] (ReferenceScanner 0x10) ?o 2 ?st))"
    by blast
  from seen m1 have r1: "PrintRecursiveReferences cycle_env ?o 0x20 2 ?st
      = emit SeenAbove (emit (Branch 2) ?st)"
    by blast
  from new m2 have r2: "prefix (visited_references ?st @ [0x18])
      (visited_references (PrintRecursiveReferences cycle_env ?o 0x18 2 ?st))"
    by blast
  from new m2 m3 have r3: "prefix (expanded_addresses (printed ?st) @ [0x18])
      (expanded_addresses (printed (PrintRecursiveReferences cycle_env ?o 0x18 2 ?st)))"
    by blast
  show ?thesis
    using e v r0 r1 r2 r3 m1 m2 m3 m4
    by (simp add: emit_def del: PrintReferences.simps PrintRecursiveReferences.simps)
qed

text \<open>
  The traversal of \<open>findrefs -r -v 0x10\<close> on the two objects that refer to each
  other (the heap scan of the call returns). The value \<open>0x10\<close> has one referrer, \<open>0x20\<close>. The traversal lists the
  referrers of \<open>0x10\<close> at level 0, for the query itself, and again at level 2, when
  the expansion of \<open>0x20\<close> comes back to \<open>0x10\<close>: the vector is empty when the
  traversal starts, so \<open>0x10\<close> is not in it then.
\<close>

theorem FindReferencesCmd_seed_expanded_twice:
  "ScanHeapForObjects_returns findrefs_env (selected_target cycle_query) cycle_session
   \<and> fst (GetReferencesByValue 0x10 cycle_session) = [0x20]
   \<and> referrer_lines 0x10
        (printed_output (fst (FindReferencesCmd_DoExecute findrefs_env cycle_query cycle_session)))
     = [(0x20, 0), (0x20, 2)]"
proof -
  have "ScanHeapForObjects_returns findrefs_env (selected_target cycle_query) cycle_session"
    by (simp add: ScanHeapForObjects_returns_def ScanMemoryRegions_returns_def
        findrefs_env_query cycle_query_def cycle_session_def LLScan_new_def)
  then show ?thesis by (simp add: cycle_DoExecute cycle_loaded [simplified])
qed

section \<open>The text of the snapshot file\<close>

lemma empty_histogram_DataEntry:
  "DataEntry (snapshot_env nothing_env) (LLScan_new 2)
     \<lparr>nodes = [], edges = [], strings = [], write_out = [], write_open = True,
       err_Fail = False\<rparr>
   = \<lparr>nodes =
        [\<lparr>n_address = 0, n_name = 1, n_id = 1, n_size = 0, n_children = 0,
          n_trace_node_id = 0, n_type = kSynthetic\<rparr>,
         \<lparr>n_address = 0, n_name = 2, n_id = 1, n_size = 0, n_children = 0,
          n_trace_node_id = 0, n_type = kSynthetic\<rparr>],
      edges = [], strings = [[], ''(GC roots)''], write_out = [], write_open = True,
      err_Fail = False\<rparr>"
  by (simp add: DataEntry_def DataEntry_walk_def InitialEntry_def AddGCRootsEntry_def GetStringId_def
      Let_def histogram_instances_def snapshot_env_def
      nothing_env_def Heap_Env.defs Snapshot_Env.defs LLScan_new_def)

lemma empty_histogram_scan:
  "ScanHeapForObjects (snapshot_env nothing_env) 2 (LLScan_new 0) = (True, LLScan_new 2)"
  by (simp add: ScanHeapForObjects_def ClearReferences_def ClearMapsToInstances_def
      ScanMemoryRegions_def LLScan_new_def snapshot_env_def nothing_env_def Heap_Env.defs
      Snapshot_Env.defs)

text \<open>
  A call without a valid target leaves the stream open; the next call cannot open it
  and writes nothing, while it still builds the graph.
\<close>

lemma HeapSnapshotJSONSerializer_DoExecute_reopen:
  "fst (snd (HeapSnapshotJSONSerializer_DoExecute (snapshot_env nothing_env) True 2
       (fst (snd (HeapSnapshotJSONSerializer_DoExecute (snapshot_env nothing_env) False 2
                    (HeapSnapshotJSONSerializer_new, LLScan_new 0))),
        LLScan_new 0)))
   = \<lparr>nodes =
        [\<lparr>n_address = 0, n_name = 1, n_id = 1, n_size = 0, n_children = 0,
          n_trace_node_id = 0, n_type = kSynthetic\<rparr>,
         \<lparr>n_address = 0, n_name = 2, n_id = 1, n_size = 0, n_children = 0,
          n_trace_node_id = 0, n_type = kSynthetic\<rparr>],
      edges = [], strings = [[], ''(GC roots)''], write_out = [], write_open = False,
      err_Fail = False\<rparr>"
  by (simp add: HeapSnapshotJSONSerializer_DoExecute_def Let_def empty_histogram_scan
      HeapSnapshotJSONSerializer_new_def empty_histogram_DataEntry)

lemmas serialize_eval =
  ImplementSnapshot_def SnapshotSerializer_def SerializeNodes_def SerializeNode_def
  SerializeEdges_def SerializeStrings_def SerializeString_def put_def Let_def
  int_to_string_def uint64_to_string_def to_string.simps

text \<open>
  C3. The last thing \<open>ImplementSnapshot\<close> writes is \<open>],\<close> and a line end: the
  top-level object is never closed, whatever the nodes, edges and strings are. The
  export of a session with an empty histogram shows the rest: no comma follows the
  arrays \<open>edges\<close>, \<open>trace_function_infos\<close> and \<open>trace_tree\<close>, none follows
  \<open>"<dummy>"\<close>, and a comma follows the last string and the \<open>strings\<close> array.
  The counts \<open>node_count\<close> and \<open>edge_count\<close>, the order of the keys and the
  \<open>meta\<close> object are as the schema has them.
\<close>

theorem ImplementSnapshot_text_not_closed:
  "suffix ('']'' @ '','' @ endl) (write_out (ImplementSnapshot st))
   \<and> write_out (fst (snd (HeapSnapshotJSONSerializer_DoExecute (snapshot_env nothing_env) True 2
        (HeapSnapshotJSONSerializer_new, LLScan_new 0))))
     = ''{'' @ JSON_S ''snapshot'' @ '':{'' @ JSON_S ''meta'' @ '':'' @ meta_object
       @ '','' @ JSON_S ''node_count'' @ '':2'' @ '','' @ JSON_S ''edge_count'' @ '':0''
       @ '','' @ JSON_S ''trace_function_count'' @ '':0'' @ ''},'' @ endl
       @ JSON_S ''nodes'' @ '':['' @ ''9,1,1,0,0,0'' @ endl @ '',9,2,1,0,0,0'' @ endl
       @ ''],'' @ endl
       @ JSON_S ''edges'' @ '':['' @ '']'' @ endl
       @ JSON_S ''trace_function_infos'' @ '':['' @ '']'' @ endl
       @ JSON_S ''trace_tree'' @ '':['' @ '']'' @ endl
       @ JSON_S ''samples'' @ '':['' @ ''],'' @ endl
       @ JSON_S ''strings'' @ '':['' @ JSON_S ''<dummy>''
       @ JSON_S [] @ '','' @ endl @ JSON_S ''(GC roots)'' @ '','' @ endl
       @ ''],'' @ endl"
proof -
  have a: "suffix ('']'' @ '','' @ endl) (write_out (ImplementSnapshot st))"
    by (simp add: ImplementSnapshot_def Let_def put_def suffix_def)
  have b: "fst (snd (HeapSnapshotJSONSerializer_DoExecute (snapshot_env nothing_env) True 2
        (HeapSnapshotJSONSerializer_new, LLScan_new 0)))
     = (ImplementSnapshot
         (DataEntry (snapshot_env nothing_env) (LLScan_new 2)
            \<lparr>nodes = [], edges = [], strings = [], write_out = [], write_open = True,
              err_Fail = False\<rparr>))\<lparr>write_open := False\<rparr>"
    by (simp add: HeapSnapshotJSONSerializer_DoExecute_def Let_def empty_histogram_scan
        HeapSnapshotJSONSerializer_new_def)
  show ?thesis
    apply (rule conjI)
    subgoal by (rule a)
    subgoal by (simp add: b empty_histogram_DataEntry serialize_eval JSON_S_def)
    done
qed

section \<open>The ids of the snapshot nodes\<close>

lemma GetStringId_frame:
  "nodes (snd (GetStringId name st)) = nodes st"
  "edges (snd (GetStringId name st)) = edges st"
  by (simp_all add: GetStringId_def Let_def)

lemma push_found_edges_nodes: "nodes (push_found_edges env es st) = nodes st"
  by (induction env es st rule: push_found_edges.induct) (simp_all add: Let_def GetStringId_frame)

lemma GetChildrenCount_nodes: "nodes (snd (GetChildrenCount env word st)) = nodes st"
  by (simp add: GetChildrenCount_def push_found_edges_nodes)

lemma instance_ids_ok_mono: "instance_ids_ok b ns \<Longrightarrow> b \<le> b' \<Longrightarrow> instance_ids_ok b' ns"
  by (auto simp: instance_ids_ok_def list_all_iff)

lemma instance_ids_ok_snoc:
  "instance_ids_ok b ns \<Longrightarrow> odd b \<Longrightarrow> unat (n_id node) = b \<Longrightarrow> instance_ids_ok (b + 2) (ns @ [node])"
  by (auto simp: instance_ids_ok_def list_all_iff sorted_wrt_append)

lemma unat_next_id: "unat (w :: uint64_t) + 2 < 2 ^ 64 \<Longrightarrow> unat (w + 2) = unat w + 2"
  by (simp add: unat_word_ariths)

lemma DataEntry_instances_ids:
  assumes "nodes (serializer l) = pre @ ns" "instance_ids_ok (unat (next_id l)) ns"
    "odd (unat (next_id l))" "unat (next_id l) + 2 * length rs < 2 ^ 64"
  shows "\<exists>ns'. nodes (serializer (snd (DataEntry_instances env rs l))) = pre @ ns'
           \<and> instance_ids_ok (unat (next_id l) + 2 * length rs) ns'"
  using assms
proof (induction rs arbitrary: l ns)
  case Nil
  then show ?case by simp
next
  case (Cons r rs)
  show ?case
  proof (cases "visitedNode l (snd r) \<noteq> None")
    case True
    then show ?thesis
      using Cons.prems instance_ids_ok_mono [of "unat (next_id l)" ns] by auto
  next
    case False
    define name where "name = GetStringId (fst r) (serializer l)"
    define children where "children = GetChildrenCount env (snd r) (snd name)"
    define node where "node = \<lparr>n_address = snd r, n_name = fst name, n_id = next_id l,
                     n_size = GetNodeSelfSize env (snd r), n_children = fst children,
                     n_trace_node_id = unassigned env, n_type = GetInstanceType env (snd r)\<rparr>"
    define st1 where "st1 = (snd children)\<lparr>err_Fail := err_Fail_after env (snd r)\<rparr>"
    define l1 where "l1 = l\<lparr>next_id := next_id l + 2, serializer := st1,
                    llscan := GetChildrenCount_index env (snd r) (llscan l)\<rparr>"
    define l2 where "l2 = l1\<lparr>serializer := st1\<lparr>nodes := nodes st1 @ [node]\<rparr>,
                       visitedNode := (visitedNode l)(snd r \<mapsto> node)\<rparr>"
    have nst1: "nodes st1 = pre @ ns"
      using Cons.prems(1)
      by (simp add: st1_def children_def name_def GetChildrenCount_nodes GetStringId_frame)
    have nx: "unat (next_id l + 2) = unat (next_id l) + 2"
      using Cons.prems(4) by (intro unat_next_id) simp
    have odd1: "odd (unat (next_id l1))" using Cons.prems(3) by (simp add: l1_def nx)
    have bnd1: "unat (next_id l1) + 2 * length rs < 2 ^ 64"
      using Cons.prems(4) by (simp add: l1_def nx)
    have eq: "DataEntry_instances env (r # rs) l =
        (if n_children node = - 1 then DataEntry_instances env rs l1
         else if n_type node = kInvalid then DataEntry_instances env rs l1
         else DataEntry_instances env rs l2)"
      using False
      by (simp add: Let_def name_def children_def node_def st1_def l1_def l2_def)
    have skip: "\<exists>ns'. nodes (serializer (snd (DataEntry_instances env rs l1))) = pre @ ns'
           \<and> instance_ids_ok (unat (next_id l) + 2 * length (r # rs)) ns'"
    proof -
      have "instance_ids_ok (unat (next_id l1)) ns"
        using Cons.prems(2) instance_ids_ok_mono [of "unat (next_id l)" ns "unat (next_id l1)"]
        by (simp add: l1_def nx)
      from Cons.IH [of l1 ns, OF _ this odd1 bnd1] nst1
      show ?thesis by (simp add: l1_def nx)
    qed
    have keep: "\<exists>ns'. nodes (serializer (snd (DataEntry_instances env rs l2))) = pre @ ns'
           \<and> instance_ids_ok (unat (next_id l) + 2 * length (r # rs)) ns'"
    proof -
      have a: "nodes (serializer l2) = pre @ (ns @ [node])"
        by (simp add: l2_def nst1)
      have b: "instance_ids_ok (unat (next_id l2)) (ns @ [node])"
        using instance_ids_ok_snoc [OF Cons.prems(2) Cons.prems(3), of node]
        by (simp add: l2_def l1_def nx node_def)
      have c: "odd (unat (next_id l2))" using odd1 by (simp add: l2_def)
      have d: "unat (next_id l2) + 2 * length rs < 2 ^ 64" using bnd1 by (simp add: l2_def)
      from Cons.IH [OF a b c d] show ?thesis by (simp add: l2_def l1_def nx)
    qed
    show ?thesis using skip keep by (simp only: eq split: if_splits) auto
  qed
qed


lemma GetStringId_strings: "\<exists>ss. strings (snd (GetStringId name st)) = strings st @ ss"
  by (simp add: GetStringId_def Let_def)

lemma push_found_edges_strings: "\<exists>ss. strings (push_found_edges env es st) = strings st @ ss"
proof (induction env es st rule: push_found_edges.induct)
  case (1 env st)
  show ?case by simp
next
  case (2 env i to rest st)
  then show ?case by simp
next
  case (3 env key to rest st)
  obtain ss1 where a: "strings (snd (GetStringId key st)) = strings st @ ss1"
    using GetStringId_strings by blast
  obtain ss2 where b: "strings (push_found_edges env (PropertyEdge key to # rest) st)
      = strings (snd (GetStringId key st)) @ ss2"
    using "3.IH" [OF refl] by (auto simp: Let_def)
  show ?case using a b by simp
qed

lemma DataEntry_instances_prefix:
  "\<exists>ns ss. nodes (serializer (snd (DataEntry_instances env rs l))) = nodes (serializer l) @ ns
      \<and> strings (serializer (snd (DataEntry_instances env rs l))) = strings (serializer l) @ ss"
proof (induction rs arbitrary: l)
  case Nil
  show ?case by simp
next
  case (Cons r rs)
  show ?case
  proof (cases "visitedNode l (snd r) \<noteq> None")
    case True
    then show ?thesis by auto
  next
    case False
    define name where "name = GetStringId (fst r) (serializer l)"
    define children where "children = GetChildrenCount env (snd r) (snd name)"
    define node where "node = \<lparr>n_address = snd r, n_name = fst name, n_id = next_id l,
                     n_size = GetNodeSelfSize env (snd r), n_children = fst children,
                     n_trace_node_id = unassigned env, n_type = GetInstanceType env (snd r)\<rparr>"
    define st1 where "st1 = (snd children)\<lparr>err_Fail := err_Fail_after env (snd r)\<rparr>"
    define l1 where "l1 = l\<lparr>next_id := next_id l + 2, serializer := st1,
                    llscan := GetChildrenCount_index env (snd r) (llscan l)\<rparr>"
    define l2 where "l2 = l1\<lparr>serializer := st1\<lparr>nodes := nodes st1 @ [node]\<rparr>,
                       visitedNode := (visitedNode l)(snd r \<mapsto> node)\<rparr>"
    have nst1: "nodes st1 = nodes (serializer l)"
      by (simp add: st1_def children_def name_def GetChildrenCount_nodes GetStringId_frame)
    obtain ss1 where sst1: "strings st1 = strings (serializer l) @ ss1"
    proof -
      obtain a where "strings (snd name) = strings (serializer l) @ a"
        unfolding name_def using GetStringId_strings by blast
      moreover obtain b where "strings (snd children) = strings (snd name) @ b"
        unfolding children_def GetChildrenCount_def using push_found_edges_strings by fastforce
      ultimately show ?thesis using that by (simp add: st1_def)
    qed
    have eq: "DataEntry_instances env (r # rs) l =
        (if n_children node = - 1 then DataEntry_instances env rs l1
         else if n_type node = kInvalid then DataEntry_instances env rs l1
         else DataEntry_instances env rs l2)"
      using False
      by (simp add: Let_def name_def children_def node_def st1_def l1_def l2_def)
    have skip: "\<exists>ns ss. nodes (serializer (snd (DataEntry_instances env rs l1))) = nodes (serializer l) @ ns
      \<and> strings (serializer (snd (DataEntry_instances env rs l1))) = strings (serializer l) @ ss"
      using Cons.IH [of l1] nst1 sst1 by (auto simp: l1_def)
    have keep: "\<exists>ns ss. nodes (serializer (snd (DataEntry_instances env rs l2))) = nodes (serializer l) @ ns
      \<and> strings (serializer (snd (DataEntry_instances env rs l2))) = strings (serializer l) @ ss"
      using Cons.IH [of l2] nst1 sst1 by (auto simp: l2_def l1_def)
    show ?thesis using skip keep by (simp only: eq split: if_splits) auto
  qed
qed


lemma DataEntry_start:
  "AddGCRootsEntry env 1 (InitialEntry env 1 HeapSnapshotJSONSerializer_new)
   = \<lparr>nodes = [root_node env, (root_node env)\<lparr>n_name := 2\<rparr>], edges = [],
      strings = [[], ''(GC roots)''], write_out = [], write_open = False, err_Fail = False\<rparr>"
  by (simp add: AddGCRootsEntry_def InitialEntry_def GetStringId_def
      HeapSnapshotJSONSerializer_new_def Let_def root_node_def)

lemma DataEntry_shape:
  "\<exists>ns ss. nodes (DataEntry env s HeapSnapshotJSONSerializer_new)
             = [root_node env, (root_node env)\<lparr>n_name := 2\<rparr>] @ ns
     \<and> strings (DataEntry env s HeapSnapshotJSONSerializer_new) = [[], ''(GC roots)''] @ ss
     \<and> (length (histogram_instances env s) < 2 ^ 63 \<longrightarrow>
          instance_ids_ok (2 * length (histogram_instances env s) + 1) ns)"
proof -
  let ?rs = "histogram_instances env s"
  let ?l = "\<lparr>next_id = 1, visitedNode = Map.empty,
             serializer = AddGCRootsEntry env 1 (InitialEntry env 1 HeapSnapshotJSONSerializer_new),
             llscan = s\<rparr>"
  let ?pre = "[root_node env, (root_node env)\<lparr>n_name := 2\<rparr>]"
  obtain ns ss where p: "nodes (serializer (snd (DataEntry_instances env ?rs ?l))) = ?pre @ ns"
    "strings (serializer (snd (DataEntry_instances env ?rs ?l))) = [[], ''(GC roots)''] @ ss"
    using DataEntry_instances_prefix [of env ?rs ?l] by (auto simp: DataEntry_start)
  have ids: "instance_ids_ok (2 * length ?rs + 1) ns" if "length ?rs < 2 ^ 63"
  proof -
    have "\<exists>ns'. nodes (serializer (snd (DataEntry_instances env ?rs ?l))) = ?pre @ ns'
           \<and> instance_ids_ok (unat (next_id ?l) + 2 * length ?rs) ns'"
      using that
      by (intro DataEntry_instances_ids [where ns = "[]"])
        (simp_all add: DataEntry_start instance_ids_ok_def)
    then show ?thesis using p(1) by auto
  qed
  have "nodes (DataEntry env s HeapSnapshotJSONSerializer_new)
          = nodes (serializer (snd (DataEntry_instances env ?rs ?l)))"
    "strings (DataEntry env s HeapSnapshotJSONSerializer_new)
          = strings (serializer (snd (DataEntry_instances env ?rs ?l)))"
    by (simp_all add: DataEntry_def DataEntry_walk_def Let_def)
  then show ?thesis using p ids by auto
qed


lemmas snapshot_eval =
  DataEntry_def DataEntry_walk_def GetChildrenCount_index_def InitialEntry_def AddGCRootsEntry_def GetStringId_def GetChildrenCount_def
  GetInstanceType_def GetNodeSelfSize_def HeapSnapshotJSONSerializer_new_def Let_def
  resolve_edge_def

lemmas two_objects_eval =
  two_objects_env_def two_objects_session_def snapshot_env_def nothing_env_def
  Heap_Env.defs Snapshot_Env.defs LLScan_new_def

lemma two_objects_histogram:
  "histogram_instances two_objects_env two_objects_session
   = [(''Object'', 0x10), (''Object'', 0x20)]"
  by (simp add: histogram_instances_def two_objects_eval)

lemma two_objects_DataEntry:
  "DataEntry two_objects_env two_objects_session HeapSnapshotJSONSerializer_new
   = \<lparr>nodes =
        [\<lparr>n_address = 0, n_name = 1, n_id = 1, n_size = 0, n_children = 0,
          n_trace_node_id = 0, n_type = kSynthetic\<rparr>,
         \<lparr>n_address = 0, n_name = 2, n_id = 1, n_size = 0, n_children = 0,
          n_trace_node_id = 0, n_type = kSynthetic\<rparr>,
         \<lparr>n_address = 0x10, n_name = 3, n_id = 1, n_size = 24, n_children = 0,
          n_trace_node_id = 0, n_type = kObject\<rparr>,
         \<lparr>n_address = 0x20, n_name = 3, n_id = 3, n_size = 24, n_children = 0,
          n_trace_node_id = 0, n_type = kObject\<rparr>],
      edges = [], strings = [[], ''(GC roots)'', ''Object''],
      write_out = [], write_open = False, err_Fail = False\<rparr>"
  apply (simp add: DataEntry_def DataEntry_walk_def two_objects_histogram)
  apply (simp add: snapshot_eval two_objects_eval)
  done

text \<open>
  What the counter does give: in a snapshot built by a new serializer the first node
  is the synthetic root with id 1 and the empty name (string id 1, the first string),
  the second is a synthetic node named \<open>(GC roots)\<close> (string id 2), and the ids of
  the instance nodes that follow are odd and strictly increasing in emission order,
  as long as fewer than \<open>2^63\<close> instances are examined.
\<close>

lemma DataEntry_instance_ids:
  "take 1 (nodes (DataEntry env s HeapSnapshotJSONSerializer_new)) = [root_node env]
   \<and> n_id (root_node env) = 1 \<and> n_name (root_node env) = 1
   \<and> n_type (root_node env) = kSynthetic
   \<and> take 2 (strings (DataEntry env s HeapSnapshotJSONSerializer_new)) = [[], ''(GC roots)'']
   \<and> n_type (nodes (DataEntry env s HeapSnapshotJSONSerializer_new) ! 1) = kSynthetic
   \<and> n_name (nodes (DataEntry env s HeapSnapshotJSONSerializer_new) ! 1) = 2
   \<and> (length (histogram_instances env s) < 2 ^ 63 \<longrightarrow>
        instance_ids_ok (2 * length (histogram_instances env s) + 1)
          (drop 2 (nodes (DataEntry env s HeapSnapshotJSONSerializer_new)))
        \<and> distinct (map n_id (drop 2 (nodes (DataEntry env s HeapSnapshotJSONSerializer_new)))))"
proof -
  obtain ns ss where
    n: "nodes (DataEntry env s HeapSnapshotJSONSerializer_new)
          = [root_node env, (root_node env)\<lparr>n_name := 2\<rparr>] @ ns"
    and st: "strings (DataEntry env s HeapSnapshotJSONSerializer_new) = [[], ''(GC roots)''] @ ss"
    and ids: "length (histogram_instances env s) < 2 ^ 63 \<longrightarrow>
          instance_ids_ok (2 * length (histogram_instances env s) + 1) ns"
    using DataEntry_shape [of env s] by blast
  have d: "distinct (map n_id ns)" if "instance_ids_ok b ns" for b
  proof -
    have "sorted_wrt (<) (map (\<lambda>n. unat (n_id n)) ns)"
      using that by (simp add: instance_ids_ok_def)
    then have "distinct (map (\<lambda>n. unat (n_id n)) ns)"
      using strict_sorted_iff by blast
    then have "distinct (map unat (map n_id ns))" by (simp add: comp_def)
    then show ?thesis using distinct_map by blast
  qed
  have d': "length (histogram_instances env s) < 2 ^ 63 \<longrightarrow> distinct (map n_id ns)"
    using ids d by blast
  show ?thesis using ids d' by (simp add: n st root_node_def)
qed

lemma DataEntry_synthetic_ids:
  "\<exists>r g ns. nodes (DataEntry env s st) = nodes st @ [r, g] @ ns \<and> n_id r = 1 \<and> n_id g = 1"
proof -
  let ?st2 = "AddGCRootsEntry env 1 (InitialEntry env 1 st)"
  let ?l = "\<lparr>next_id = 1, visitedNode = Map.empty, serializer = ?st2, llscan = s\<rparr>"
  obtain r g where a: "nodes ?st2 = nodes st @ [r, g]" "n_id r = 1" "n_id g = 1"
    by (simp add: AddGCRootsEntry_def InitialEntry_def Let_def GetStringId_frame)
  obtain ns where
    "nodes (serializer (snd (DataEntry_instances env (histogram_instances env s) ?l)))
       = nodes (serializer ?l) @ ns"
    using DataEntry_instances_prefix [of env "histogram_instances env s" ?l] by blast
  moreover have "nodes (DataEntry env s st)
      = nodes (serializer (snd (DataEntry_instances env (histogram_instances env s) ?l)))"
    by (simp add: DataEntry_def DataEntry_walk_def Let_def)
  ultimately have "nodes (DataEntry env s st) = nodes st @ [r, g] @ ns"
    using a(1) by simp
  with a(2,3) show ?thesis by blast
qed

lemma two_objects_DataEntry_again:
  "map n_id (nodes (DataEntry two_objects_env two_objects_session
      (DataEntry two_objects_env two_objects_session HeapSnapshotJSONSerializer_new)))
   = [1, 1, 1, 3, 1, 1, 1, 3]"
  apply (simp only: two_objects_DataEntry)
  apply (simp add: DataEntry_def DataEntry_walk_def two_objects_histogram)
  apply (simp add: snapshot_eval two_objects_eval)
  done

text \<open>
  C4. \<open>DataEntry\<close> hands its counter \<open>next_id\<close> to \<open>InitialEntry\<close> and to
  \<open>AddGCRootsEntry\<close> by value, so the \<open>next_id += 2\<close> of each is lost: in every
  build, whatever the histogram and whatever the serializer held before, the two
  synthetic nodes that are appended both have the id 1, and the first instance
  examined takes the id 1 again. On a histogram of one record with two instances the
  node ids are 1, 1, 1, 3: the id of the \<open>(GC roots)\<close> node is not the next id after
  the root's (and not even), and three nodes share the id 1. A second build by the
  same serializer appends to the nodes of the first (nothing empties \<open>nodes_\<close>) and
  repeats all four ids.
\<close>

theorem DataEntry_node_ids_repeat:
  "map n_id (take 2 (drop (length (nodes st)) (nodes (DataEntry env s st)))) = [1, 1]
   \<and> map n_id (nodes (DataEntry two_objects_env two_objects_session
                         HeapSnapshotJSONSerializer_new))
     = [1, 1, 1, 3]
   \<and> \<not> even (unat (n_id (nodes (DataEntry two_objects_env two_objects_session
                                  HeapSnapshotJSONSerializer_new) ! 1)))
   \<and> \<not> distinct (map n_id (nodes (DataEntry two_objects_env two_objects_session
                                  HeapSnapshotJSONSerializer_new)))
   \<and> map n_id (nodes (DataEntry two_objects_env two_objects_session
        (DataEntry two_objects_env two_objects_session HeapSnapshotJSONSerializer_new)))
     = [1, 1, 1, 3, 1, 1, 1, 3]"
proof -
  obtain r g ns where "nodes (DataEntry env s st) = nodes st @ [r, g] @ ns"
    "n_id r = 1" "n_id g = 1"
    using DataEntry_synthetic_ids by blast
  then have a: "map n_id (take 2 (drop (length (nodes st)) (nodes (DataEntry env s st))))
      = [1, 1]"
    by simp
  have b: "map n_id (nodes (DataEntry two_objects_env two_objects_session
                         HeapSnapshotJSONSerializer_new)) = [1, 1, 1, 3]"
    "\<not> even (unat (n_id (nodes (DataEntry two_objects_env two_objects_session
                                  HeapSnapshotJSONSerializer_new) ! 1)))"
    "\<not> distinct (map n_id (nodes (DataEntry two_objects_env two_objects_session
                                  HeapSnapshotJSONSerializer_new)))"
    by (simp_all add: two_objects_DataEntry)
  from a b two_objects_DataEntry_again show ?thesis by (simp only: simp_thms)
qed

section \<open>Pagination of findjsinstances\<close>


















text \<open>
  Two runs that the statement below leaves out. When the entries fill the last page
  exactly (20 entries, limit 10), the query after the last page goes to page 2, which
  is empty and is announced as 21 to 20 of 20, before the next one wraps. When the
  stored number of entries is larger than the set (the histogram was rebuilt with
  fewer instances), the start of page 1 lies outside the set. With more than
  \<open>2^30\<close> entries and a limit of \<open>2^30\<close>, \<open>(current_page + 1) * output_limit\<close>
  overflows on page 1.
\<close>

lemma page_instances_exact_fill:
  "UpdatePagination ''Foo'' 10 20
     \<lparr>total_entries = 20, current_page = 1, output_limit = 10, command = ''Foo''\<rparr>
   = \<lparr>total_entries = 20, current_page = 2, output_limit = 10, command = ''Foo''\<rparr>"
  "page_instances 10
     \<lparr>total_entries = 20, current_page = 2, output_limit = 10, command = ''Foo''\<rparr>
     (take 20 foo_addresses) = Some ([], False)"
  "initial_p_offset 10
     \<lparr>total_entries = 20, current_page = 2, output_limit = 10, command = ''Foo''\<rparr> + 1 = 21"
  "final_p_offset 10
     \<lparr>total_entries = 20, current_page = 2, output_limit = 10, command = ''Foo''\<rparr> = 20"
  by (simp_all add: UpdatePagination_def page_instances_def initial_p_offset_def
      final_p_offset_def foo_addresses_def)

lemma update_overflow:
  "\<not> update_in_range ''Foo'' 1073741824
       \<lparr>total_entries = 2147483647, current_page = 1, output_limit = 1073741824,
         command = ''Foo''\<rparr>"
  by (simp add: update_in_range_def int_ok_def)

lemma page_instances_past_end:
  "page_instances 10
     \<lparr>total_entries = 25, current_page = 1, output_limit = 10, command = ''Foo''\<rparr>
     (take 5 foo_addresses) = None"
  by (simp add: page_instances_def initial_p_offset_def final_p_offset_def foo_addresses_def)




section \<open>ScanRefs and repeated keys\<close>

lemmas push_back_eval =
  push_back_by_value_def push_back_by_property_def push_back_by_string_def
  GetReferencesByValue_def GetReferencesByProperty_def GetReferencesByString_def

text \<open>
  C6. \<open>ReferenceScanner::ScanRefs\<close> and \<open>StringScanner::ScanRefs\<close> keep an
  \<open>already_saved\<close> set; \<open>PropertyScanner::ScanRefs\<close> has none. On an object with
  two properties whose keys have the same text, one call of the property scanner
  appends the object twice under that text, while the by-value and the by-string
  scanner, which reach one value and one text through the same two slots, append it
  once.
\<close>

theorem PropertyScanner_ScanRefs_appends_twice:
  "references_by_property (PropertyScanner_ScanRefs_JSObject two_symbols_env 0x10 (LLScan_new 0))
     ''Symbol('id')'' = Some [0x10, 0x10]
   \<and> references_by_value (ReferenceScanner_ScanRefs_JSObject two_symbols_env 0x10 (LLScan_new 0))
     0x40 = Some [0x10]
   \<and> references_by_string (StringScanner_ScanRefs_JSObject two_symbols_env 0x10 (LLScan_new 0))
     ''hello'' = Some [0x10]"
  by (simp add: PropertyScanner_ScanRefs_JSObject_def ReferenceScanner_ScanRefs_JSObject_def
      StringScanner_ScanRefs_JSObject_def StringScanner_value_def two_symbols_env_def
      nothing_env_def push_back_eval LLScan_new_def Let_def)

section \<open>The heap scan: what a change of target clears\<close>

lemma Visit_contexts: "contexts (snd vs) \<subseteq> contexts (snd (Visit env w vs))"
  by (auto simp: Visit_def InsertOnContexts_def InsertOnMapsToInstances_def
      InsertOnDetailedMapsToInstances_def Let_def split: option.splits)

lemma Visit_references:
  "references_by_value (snd (Visit env w vs)) = references_by_value (snd vs)
   \<and> references_by_property (snd (Visit env w vs)) = references_by_property (snd vs)
   \<and> references_by_string (snd (Visit env w vs)) = references_by_string (snd vs)
   \<and> target (snd (Visit env w vs)) = target (snd vs)"
  by (auto simp: Visit_def InsertOnContexts_def InsertOnMapsToInstances_def
      InsertOnDetailedMapsToInstances_def Let_def split: option.splits)

lemma scan_keeps_refl: "scan_keeps s s"
  by (simp add: scan_keeps_def)

lemma scan_keeps_trans: "scan_keeps s s' \<Longrightarrow> scan_keeps s' s'' \<Longrightarrow> scan_keeps s s''"
  by (auto simp: scan_keeps_def)

lemma Visit_keeps: "scan_keeps (snd vs) (snd (Visit env w vs))"
  using Visit_contexts [of vs env w] Visit_references [of env w vs]
  by (simp add: scan_keeps_def)

lemma fold_Visit_keeps: "scan_keeps (snd vs) (snd (fold (Visit env) ws vs))"
proof (induction ws arbitrary: vs)
  case Nil
  show ?case by (simp add: scan_keeps_refl)
next
  case (Cons w ws)
  show ?case
    using scan_keeps_trans [OF Visit_keeps [of vs env w] Cons.IH [of "Visit env w vs"]]
    by simp
qed

lemma scan_blocks_keeps: "scan_keeps (snd vs) (snd (scan_blocks env bs vs))"
proof (induction env bs vs rule: scan_blocks.induct)
  case (1 env vs)
  show ?case by (simp add: scan_keeps_refl)
next
  case (2 env bs vs)
  show ?case by (simp add: scan_keeps_refl)
next
  case (3 env ws bs vs)
  show ?case
  proof (cases "GetAddressByteSize env = 4 \<or> GetAddressByteSize env = 8")
    case True
    then have "scan_keeps (snd (fold (Visit env) ws vs))
        (snd (scan_blocks env bs (fold (Visit env) ws vs)))"
      using "3.IH" by simp
    from scan_keeps_trans [OF fold_Visit_keeps [of vs env ws] this] True
    show ?thesis by simp
  next
    case False
    then show ?thesis using "3.IH" by simp
  qed
qed

lemma scan_regions_keeps: "scan_keeps (snd vs) (snd (scan_regions env rs vs))"
proof (induction rs arbitrary: vs)
  case Nil
  show ?case by (simp add: scan_keeps_refl)
next
  case (Cons r rs)
  show ?case
  proof (cases "IsWritable r")
    case True
    then show ?thesis
      using scan_keeps_trans [OF scan_blocks_keeps [of vs env "blocks r"]
          Cons.IH [of "scan_blocks env (blocks r) vs"]]
      by simp
  next
    case False
    then show ?thesis using Cons.IH [of vs] by simp
  qed
qed

lemma ScanMemoryRegions_keeps: "scan_keeps (snd vs) (snd (ScanMemoryRegions env vs))"
  by (simp add: ScanMemoryRegions_def scan_regions_keeps)

lemma ScanHeapForObjects_contexts:
  "contexts s \<subseteq> contexts (snd (ScanHeapForObjects env tgt s))"
proof -
  have "contexts s1 \<subseteq> contexts (snd (ScanMemoryRegions env (v, s1)))" for s1 v
    using ScanMemoryRegions_keeps [of "(v, s1)" env] by (simp add: scan_keeps_def)
  from this [of "(ClearReferences (ClearMapsToInstances s))\<lparr>target := tgt\<rparr>"] this [of s]
  show ?thesis
    by (simp add: ScanHeapForObjects_def Let_def ClearReferences_def ClearMapsToInstances_def)
qed

lemma ScanHeapForObjects_new_target:
  assumes "target s \<noteq> tgt"
  shows "references_by_value (snd (ScanHeapForObjects env tgt s)) = Map.empty
     \<and> references_by_property (snd (ScanHeapForObjects env tgt s)) = Map.empty
     \<and> references_by_string (snd (ScanHeapForObjects env tgt s)) = Map.empty
     \<and> target (snd (ScanHeapForObjects env tgt s)) = tgt"
proof -
  let ?s1 = "(ClearReferences (ClearMapsToInstances s))\<lparr>target := tgt\<rparr>"
  have "scan_keeps ?s1 (snd (ScanMemoryRegions env (FindJSObjectsVisitor_new, ?s1)))"
    using ScanMemoryRegions_keeps [of "(FindJSObjectsVisitor_new, ?s1)" env] by simp
  then show ?thesis
    using assms
    by (simp add: ScanHeapForObjects_def Let_def scan_keeps_def ClearReferences_def
        ClearMapsToInstances_def)
qed

lemma apply_operation_contexts: "contexts s \<subseteq> contexts (apply_operation operation s)"
  by (cases operation)
    (simp_all add: ScanHeapForObjects_contexts GetReferencesByValue_def
      GetReferencesByProperty_def GetReferencesByString_def push_back_by_value_def
      push_back_by_property_def push_back_by_string_def Let_def split: option.splits)

lemma run_session_contexts: "contexts s \<subseteq> contexts (run_session ops s)"
proof (induction ops arbitrary: s)
  case Nil
  show ?case by simp
next
  case (Cons operation ops)
  show ?case
    using apply_operation_contexts [of s operation] Cons.IH [of "apply_operation operation s"]
    by simp
qed

lemmas example_eval =
  ScanHeapForObjects_def ClearReferences_def ClearMapsToInstances_def LLScan_new_def
  ScanMemoryRegions_def Visit_def FindJSObjectsVisitor_new_def InsertOnContexts_def
  InsertOnMapsToInstances_def InsertOnDetailedMapsToInstances_def plain_entry_def
  context_entry_def GetTypeNameWithProperties_def to_string.simps AddInstance_def Let_def
  TypeRecord_new_def DetailedTypeRecord_new_def kNumberOfPropertiesForDetailedOutput_def
  GetReferencesByValue_def

lemma old_session_eval:
  "old_session =
     \<lparr>target = 2,
      mapstoinstances =
        [''Old'' \<mapsto> \<lparr>type_name = ''Old'', instance_count = 1, total_instance_size = 24,
                      instances = {0x10}\<rparr>],
      detailedmapstoinstances =
        [''Old[0]'' \<mapsto> \<lparr>type_name = ''Old'', instance_count = 1, total_instance_size = 24,
                         instances = {0x10}, own_descriptors_count = 0,
                         indexed_properties_count = 0\<rparr>],
      references_by_value = [0x10 \<mapsto> []], references_by_property = Map.empty,
      references_by_string = Map.empty, contexts = {0x18}\<rparr>"
  by (simp add: old_session_def example_eval old_env_def)

text \<open>
  C7. The scan of a target other than the one of the last scan empties
  \<open>mapstoinstances_\<close> and the three reference indices, but
  \<open>ClearMapsToInstances\<close> never touches \<open>detailedmapstoinstances_\<close>: in the
  example the record \<open>Old[0]\<close> of the first process, with its instance \<open>0x10\<close>,
  is still in the detailed histogram after the scan of the second process, next to
  the record \<open>New[0]\<close> of the new scan.
\<close>

theorem ScanHeapForObjects_new_target_keeps_detailed_records:
  "target old_session = 2
   \<and> snd (ScanHeapForObjects new_env 3 old_session) =
     \<lparr>target = 3,
      mapstoinstances =
        [''New'' \<mapsto> \<lparr>type_name = ''New'', instance_count = 1, total_instance_size = 32,
                      instances = {0x20}\<rparr>],
      detailedmapstoinstances =
        [''Old[0]'' \<mapsto> \<lparr>type_name = ''Old'', instance_count = 1, total_instance_size = 24,
                         instances = {0x10}, own_descriptors_count = 0,
                         indexed_properties_count = 0\<rparr>,
         ''New[0]'' \<mapsto> \<lparr>type_name = ''New'', instance_count = 1, total_instance_size = 32,
                         instances = {0x20}, own_descriptors_count = 0,
                         indexed_properties_count = 0\<rparr>],
      references_by_value = Map.empty, references_by_property = Map.empty,
      references_by_string = Map.empty, contexts = {0x18}\<rparr>"
  by (simp add: old_session_eval example_eval new_env_def)

text \<open>
  C10. Nothing removes an address from the context set. \<open>ClearMapsToInstances\<close> and
  \<open>ClearReferences\<close> leave it as it is; a heap scan, also one that detects a change
  of target (and then empties the three reference indices and stores the target),
  ends with a context set that contains the one it started with; \<open>InsertOnContexts\<close>
  adds its address; and after any sequence of operations on an \<open>LLScan\<close> every
  address that was in the set is still in it.
\<close>

theorem contexts_never_removed:
  "contexts (ClearMapsToInstances s) = contexts s
   \<and> contexts (ClearReferences s) = contexts s
   \<and> mapstoinstances (ClearMapsToInstances s) = Map.empty
   \<and> contexts (InsertOnContexts a s) = insert a (contexts s)
   \<and> contexts s \<subseteq> contexts (snd (ScanHeapForObjects env tgt s))
   \<and> (target s \<noteq> tgt \<longrightarrow>
        references_by_value (snd (ScanHeapForObjects env tgt s)) = Map.empty
        \<and> references_by_property (snd (ScanHeapForObjects env tgt s)) = Map.empty
        \<and> references_by_string (snd (ScanHeapForObjects env tgt s)) = Map.empty
        \<and> target (snd (ScanHeapForObjects env tgt s)) = tgt)
   \<and> contexts s \<subseteq> contexts (run_session ops s)"
  using ScanHeapForObjects_new_target [of s tgt env]
  by (simp add: ScanHeapForObjects_contexts run_session_contexts ClearMapsToInstances_def
      ClearReferences_def InsertOnContexts_def)

theorem contexts_never_removed_witness:
  "target old_session \<noteq> 3
   \<and> contexts old_session = {0x18}
   \<and> 0x18 \<in> contexts (snd (ScanHeapForObjects new_env 3 old_session))
   \<and> references_by_value old_session 0x10 = Some []
   \<and> references_by_value (snd (ScanHeapForObjects new_env 3 old_session)) = Map.empty
   \<and> 0x18 \<in> contexts
        (run_session [Do_ScanHeapForObjects new_env 3, Do_GetReferencesByValue 0x20,
                      Do_ScanHeapForObjects old_env 2] old_session)"
proof -
  have h: "target old_session \<noteq> 3" "contexts old_session = {0x18}"
    "references_by_value old_session 0x10 = Some []"
    by (simp_all add: old_session_eval)
  show ?thesis
    using h
      contexts_never_removed [of old_session 0 new_env 3
        "[Do_ScanHeapForObjects new_env 3, Do_GetReferencesByValue 0x20,
          Do_ScanHeapForObjects old_env 2]"]
    by (simp del: run_session.simps)
qed

section \<open>The reference indices\<close>

text \<open>
  C8. A lookup of a key that is absent from a reference index stores a new empty
  vector under the key and returns it: afterwards the key is present with no
  referrers, the index holds exactly one more key, and the loaded predicate of the
  index is true. A later lookup of that key returns the same empty vector and changes
  nothing, which is what the first lookup of a never-queried key returns: the lookup
  cannot tell a key with zero referrers from a key that was never queried.
\<close>

theorem GetReferences_create_on_read:
  "(references_by_value s a = None \<longrightarrow>
      fst (GetReferencesByValue a s) = []
      \<and> references_by_value (snd (GetReferencesByValue a s)) a = Some []
      \<and> dom (references_by_value (snd (GetReferencesByValue a s)))
          = insert a (dom (references_by_value s))
      \<and> AreReferencesByValueLoaded (snd (GetReferencesByValue a s))
      \<and> GetReferencesByValue a (snd (GetReferencesByValue a s))
          = (fst (GetReferencesByValue a s), snd (GetReferencesByValue a s)))
   \<and> (references_by_property s p = None \<longrightarrow>
      fst (GetReferencesByProperty p s) = []
      \<and> references_by_property (snd (GetReferencesByProperty p s)) p = Some []
      \<and> dom (references_by_property (snd (GetReferencesByProperty p s)))
          = insert p (dom (references_by_property s))
      \<and> AreReferencesByPropertyLoaded (snd (GetReferencesByProperty p s))
      \<and> GetReferencesByProperty p (snd (GetReferencesByProperty p s))
          = (fst (GetReferencesByProperty p s), snd (GetReferencesByProperty p s)))
   \<and> (references_by_string s v = None \<longrightarrow>
      fst (GetReferencesByString v s) = []
      \<and> references_by_string (snd (GetReferencesByString v s)) v = Some []
      \<and> dom (references_by_string (snd (GetReferencesByString v s)))
          = insert v (dom (references_by_string s))
      \<and> AreReferencesByStringLoaded (snd (GetReferencesByString v s))
      \<and> GetReferencesByString v (snd (GetReferencesByString v s))
          = (fst (GetReferencesByString v s), snd (GetReferencesByString v s)))"
  by (simp add: GetReferencesByValue_def GetReferencesByProperty_def GetReferencesByString_def
      AreReferencesByValueLoaded_def AreReferencesByPropertyLoaded_def
      AreReferencesByStringLoaded_def)

theorem GetReferences_create_on_read_witness:
  "references_by_value (LLScan_new 0) 16 = None
   \<and> references_by_property (LLScan_new 0) ''pid'' = None
   \<and> references_by_string (LLScan_new 0) ''hello'' = None
   \<and> \<not> AreReferencesByValueLoaded (LLScan_new 0)
   \<and> fst (GetReferencesByValue 16 (LLScan_new 0)) = []
   \<and> AreReferencesByValueLoaded (snd (GetReferencesByValue 16 (LLScan_new 0)))
   \<and> AreReferencesByPropertyLoaded (snd (GetReferencesByProperty ''pid'' (LLScan_new 0)))
   \<and> AreReferencesByStringLoaded (snd (GetReferencesByString ''hello'' (LLScan_new 0)))"
proof -
  have h: "references_by_value (LLScan_new 0) 16 = None"
    "references_by_property (LLScan_new 0) ''pid'' = None"
    "references_by_string (LLScan_new 0) ''hello'' = None"
    by (simp_all add: LLScan_new_def)
  have n: "\<not> AreReferencesByValueLoaded (LLScan_new 0)"
    by (simp add: AreReferencesByValueLoaded_def LLScan_new_def)
  show ?thesis
    using h n GetReferences_create_on_read [of "LLScan_new 0" 16 "''pid''" "''hello''"]
    by simp
qed

section \<open>findrefs by value: a small integer is refused\<close>

text \<open>
  C9. A \<open>findrefs\<close> call with arguments, a valid target, a search parameter and the
  by-value scan type, whose expression evaluates to a value that \<open>Smi::Check\<close>
  accepts, returns \<open>false\<close> with the error \<open>Search value is an SMI.\<close> and the
  failed status. No scanner was constructed and nothing was printed, and the
  \<open>LLScan\<close> is the one the call started with: neither the heap scan nor the
  indexing ran.
\<close>

theorem FindReferencesCmd_refuses_smi:
  "cmd_given c \<and> target_valid c \<and> start c \<noteq> []
   \<and> scan_type (ParseScanOptions (getopt_results c)) = kFieldValue
   \<and> EvaluateExpression env (concat (start c)) = Inr search_value
   \<and> Smi_Check env search_value
   \<longrightarrow> FindReferencesCmd_DoExecute env c s
       = (\<lparr>returned = False, error_message = Some ''Search value is an SMI.'',
           status = Some eReturnStatusFailed, scanners = [], printed_output = []\<rparr>, s)"
  by (simp add: FindReferencesCmd_DoExecute_def FindReferencesCmd_scanner_def command_failed_def)

lemma findrefs_env_smi:
  "EvaluateExpression findrefs_env ''42'' = Inr 42" "Smi_Check findrefs_env 42"
  by (simp_all add: findrefs_env_def Heap_Env.defs FindRefs_Env.defs)

theorem FindReferencesCmd_refuses_smi_witness:
  "cmd_given smi_query \<and> target_valid smi_query \<and> start smi_query \<noteq> []
   \<and> scan_type (ParseScanOptions (getopt_results smi_query)) = kFieldValue
   \<and> EvaluateExpression findrefs_env (concat (start smi_query)) = Inr 42
   \<and> Smi_Check findrefs_env 42
   \<and> FindReferencesCmd_DoExecute findrefs_env smi_query cycle_session
       = (\<lparr>returned = False, error_message = Some ''Search value is an SMI.'',
           status = Some eReturnStatusFailed, scanners = [], printed_output = []\<rparr>,
          cycle_session)"
proof -
  have h: "cmd_given smi_query" "target_valid smi_query" "start smi_query \<noteq> []"
    "scan_type (ParseScanOptions (getopt_results smi_query)) = kFieldValue"
    "EvaluateExpression findrefs_env (concat (start smi_query)) = Inr 42"
    by (simp_all add: smi_query_def ParseScanOptions_def ScanOptions_new_def findrefs_env_smi)
  show ?thesis
    using h findrefs_env_smi(2)
      FindReferencesCmd_refuses_smi [of smi_query findrefs_env 42 cycle_session]
    by simp
qed

end
